theory Spec2Isabelle
  imports Main "HOL-Library.Sublist"
begin

section \<open>The sshfs mount bridge of multipass: a shallow embedding of sshfs\_mount.cpp\<close>

text \<open>
  The translation unit \<^verbatim>\<open>src/sshfs_mount/sshfs_mount.cpp\<close> runs a handful of shell
  commands on an SSH session, creates the missing directories of the mount target on the
  guest, reads the guest's default uid and gid, builds the SFTP server and runs it on a
  thread that \<^verbatim>\<open>stop()\<close> joins. Everything the C++ does besides returning a value is
  explicit here: the commands sent over the session and the lines handed to the logger
  are lists carried in a \<open>world\<close> record, and a thrown exception is the \<open>Inl\<close> branch
  of a sum, returned together with the world as it was when the exception left.
\<close>

subsection \<open>Exceptions\<close>

text \<open>
  \<^verbatim>\<open>std::runtime_error(what)\<close> of the default error handler, \<^verbatim>\<open>mp::SSHFSMissingError\<close>,
  the two exceptions of \<^verbatim>\<open>std::stoi\<close>, the \<^verbatim>\<open>std::filesystem::filesystem_error\<close> of
  \<^verbatim>\<open>std::filesystem::exists\<close>, and the \<^verbatim>\<open>std::system_error\<close> of \<^verbatim>\<open>std::thread::join\<close>.
\<close>

datatype error =
    RuntimeError string
  | SSHFSMissingError
  | InvalidArgument
  | OutOfRange
  | FilesystemError
  | SystemError

subsection \<open>The SSH session and its processes\<close>

text \<open>
  Modelled from the spec: \<^verbatim>\<open>mp::SSHProcess\<close> (multipass/ssh/ssh\_process.h is not among
  the sources). The spec gives the interface
  \<^verbatim>\<open>Process{exit_code, read_stdout, read_stderr}\<close>; a process is the three values the
  finished remote command left.
\<close>

record ssh_process =
  exit_code :: int
  read_std_output :: string
  read_std_error :: string

text \<open>
  Modelled from the spec: \<^verbatim>\<open>mp::SSHSession\<close> (multipass/ssh/ssh\_session.h is not among
  the sources). The spec gives \<^verbatim>\<open>exec(command: string) -> Process\<close> on a stateful
  handle. The guest is any deterministic machine: \<open>respond\<close> gives the process of a
  command from the commands the session has run before it, and \<open>issued\<close> is that
  history, which \<open>exec\<close> extends.
\<close>

record ssh_session =
  respond :: "string list \<Rightarrow> string \<Rightarrow> ssh_process"
  issued :: "string list"

definition exec :: "ssh_session \<Rightarrow> string \<Rightarrow> ssh_process \<times> ssh_session" where
  "exec session cmd =
     (respond session (issued session) cmd, session\<lparr>issued := issued session @ [cmd]\<rparr>)"

subsection \<open>The logger\<close>

text \<open>
  Modelled from the spec: \<^verbatim>\<open>mpl::log\<close> and \<^verbatim>\<open>mpl::Level\<close> (multipass/logging/log.h
  is not among the sources). The spec treats logging as a collaborator with side effects
  only: \<^verbatim>\<open>mpl::log(level, category, message)\<close> appends one line. Only the two levels
  the file uses are declared.
\<close>

datatype level = warning | debug

type_synonym log_line = "level \<times> string \<times> string"

definition category :: string where
  "category = ''sshfs mount''"

record world =
  session :: ssh_session
  logged :: "log_line list"

definition log :: "level \<Rightarrow> string \<Rightarrow> string \<Rightarrow> world \<Rightarrow> world" where
  "log lvl cat msg w = w\<lparr>logged := logged w @ [(lvl, cat, msg)]\<rparr>"

text \<open>The result of a call that may throw: the exception or the value, and the world after.\<close>

type_synonym 'a outcome = "(error + 'a) \<times> world"

subsection \<open>run\_cmd\<close>

text \<open>
  \<^verbatim>\<open>
  template <typename Callable>
  auto run_cmd(mp::SSHSession& session, std::string&& cmd, Callable&& error_handler)
  {
      auto ssh_process = session.exec(cmd);
      if (ssh_process.exit_code() != 0)
          error_handler(ssh_process);
      return ssh_process.read_std_output();
  }
  \<close>
  The handler is any callable on the process: it may log, and it may throw (\<open>Inl\<close>) or
  return (\<open>Inr\<close>). When it returns, control falls through to the \<^verbatim>\<open>return\<close>.
\<close>

type_synonym error_handler = "ssh_process \<Rightarrow> world \<Rightarrow> unit outcome"

definition run_cmd :: "world \<Rightarrow> string \<Rightarrow> error_handler \<Rightarrow> string outcome" where
  "run_cmd w cmd error_handler =
     (let (ssh_process, session') = exec (session w) cmd;
          w1 = w\<lparr>session := session'\<rparr>
      in if exit_code ssh_process \<noteq> 0 then
           (case error_handler ssh_process w1 of
              (Inl e, w2) \<Rightarrow> (Inl e, w2)
            | (Inr _, w2) \<Rightarrow> (Inr (read_std_output ssh_process), w2))
         else (Inr (read_std_output ssh_process), w1))"

text \<open>
  The two-argument overload and its handler,
  \<^verbatim>\<open>[](mp::SSHProcess& proc) { throw std::runtime_error(proc.read_std_error()); }\<close>.
\<close>

definition default_error_handler :: error_handler where
  "default_error_handler proc w = (Inl (RuntimeError (read_std_error proc)), w)"

definition run_cmd_default :: "world \<Rightarrow> string \<Rightarrow> string outcome" where
  "run_cmd_default w cmd = run_cmd w cmd default_error_handler"

subsection \<open>check\_sshfs\_exists\<close>

definition sshfs_error_handler :: error_handler where
  "sshfs_error_handler proc w =
     (Inl SSHFSMissingError,
      log warning category
        (''Unable to determine if 'sshfs' is installed: '' @ read_std_error proc) w)"

definition check_sshfs_exists :: "world \<Rightarrow> unit outcome" where
  "check_sshfs_exists w =
     (case run_cmd w ''which sshfs'' sshfs_error_handler of
        (Inl e, w') \<Rightarrow> (Inl e, w')
      | (Inr _, w') \<Rightarrow> (Inr (), w'))"

subsection \<open>make\_target\_dir\<close>

text \<open>\<^verbatim>\<open>fmt::format("\"{}\"", s)\<close>: the string between two double quotes.\<close>

definition quoted :: "string \<Rightarrow> string" where
  "quoted s = CHR 0x22 # s @ [CHR 0x22]"

definition mkdir_cmd :: "string \<Rightarrow> string" where
  "mkdir_cmd target = ''sudo mkdir -p '' @ quoted target"

definition make_target_dir :: "world \<Rightarrow> string \<Rightarrow> unit outcome" where
  "make_target_dir w target =
     (case run_cmd_default w (mkdir_cmd target) of
        (Inl e, w') \<Rightarrow> (Inl e, w')
      | (Inr _, w') \<Rightarrow> (Inr (), w'))"

subsection \<open>split\_path\<close>

text \<open>
  \<^verbatim>\<open>
  for (char c: path)
  {
      if (('\\' == c || '/' == c) && !dir.empty())
          splitting.push_back(dir);
      dir.push_back('\\' == c ? '/' : c);
  }
  splitting.push_back(dir);
  \<close>
  The loop carries \<open>dir\<close> and \<open>splitting\<close>; \<open>split_path\<close> starts it with the empty
  \<open>dir\<close> and pushes the last \<open>dir\<close>.
\<close>

definition backslash :: char where
  "backslash = CHR 0x5C"

definition slash :: char where
  "slash = CHR ''/''"

fun split_path_loop :: "string \<Rightarrow> string \<Rightarrow> string list \<Rightarrow> string \<times> string list" where
  "split_path_loop [] dir splitting = (dir, splitting)"
| "split_path_loop (c # cs) dir splitting =
     split_path_loop cs
       (dir @ [if backslash = c then slash else c])
       (if (backslash = c \<or> slash = c) \<and> dir \<noteq> [] then splitting @ [dir] else splitting)"

definition split_path :: "string \<Rightarrow> string list \<Rightarrow> string list" where
  "split_path path splitting =
     (let (dir, splitting') = split_path_loop path [] splitting in splitting' @ [dir])"

text \<open>The path with every backslash replaced by a forward slash.\<close>

definition normalized :: "string \<Rightarrow> string" where
  "normalized path = map (\<lambda>c. if backslash = c then slash else c) path"

subsection \<open>set\_owner\_for\<close>

text \<open>
  Modelled from the spec: \<^verbatim>\<open>mp::utils::trim_end\<close> (multipass/utils.h is not among the
  sources). The spec says it trims trailing whitespace/newline; whitespace is what
  \<^verbatim>\<open>std::isspace\<close> accepts in the C locale: space and the characters 9 to 13.
\<close>

definition isspace :: "char \<Rightarrow> bool" where
  "isspace c = (c = CHR '' '' \<or> (9 \<le> (of_char c :: nat) \<and> (of_char c :: nat) \<le> 13))"

definition trim_end :: "string \<Rightarrow> string" where
  "trim_end s = rev (dropWhile isspace (rev s))"

definition chown_cmd :: "string \<Rightarrow> string \<Rightarrow> string \<Rightarrow> string" where
  "chown_cmd vm_user vm_group target =
     ''sudo chown '' @ vm_user @ '':'' @ vm_group @ '' '' @ quoted target"

definition set_owner_for :: "world \<Rightarrow> string \<Rightarrow> unit outcome" where
  "set_owner_for w target =
     (case run_cmd_default w ''id -nu'' of
        (Inl e, w1) \<Rightarrow> (Inl e, w1)
      | (Inr vm_user, w1) \<Rightarrow>
          (case run_cmd_default w1 ''id -ng'' of
             (Inl e, w2) \<Rightarrow> (Inl e, w2)
           | (Inr vm_group, w2) \<Rightarrow>
               (case run_cmd_default w2 (chown_cmd (trim_end vm_user) (trim_end vm_group) target) of
                  (Inl e, w3) \<Rightarrow> (Inl e, w3)
                | (Inr _, w3) \<Rightarrow> (Inr (), w3))))"

subsection \<open>The host: the local filesystem and the build's file name\<close>

text \<open>
  \<^verbatim>\<open>std::filesystem::exists(p)\<close> asks the filesystem of the process that builds the
  bridge. Its throwing overload returns true when the status of \<open>p\<close> is found, false
  when it is not found, and throws \<^verbatim>\<open>filesystem_error\<close> when the status cannot be
  read. \<open>file_macro\<close> is what \<^verbatim>\<open>__FILE__\<close> expands to in the build.
\<close>

datatype file_status = found | not_found | status_error

record host =
  fs_status :: "string \<Rightarrow> file_status"
  file_macro :: string

definition fs_exists :: "host \<Rightarrow> string \<Rightarrow> error + bool" where
  "fs_exists h p =
     (case fs_status h p of
        found \<Rightarrow> Inr True
      | not_found \<Rightarrow> Inr False
      | status_error \<Rightarrow> Inl FilesystemError)"

subsection \<open>std::stoi\<close>

text \<open>
  \<^verbatim>\<open>std::stoi(str)\<close> in base 10, as \<^verbatim>\<open>strtol\<close> reads it: leading whitespace is skipped,
  one sign is accepted, the longest run of decimal digits is the number, and whatever
  follows is ignored. No digit: \<^verbatim>\<open>std::invalid_argument\<close>. A number outside the 32-bit
  \<^verbatim>\<open>int\<close>: \<^verbatim>\<open>std::out_of_range\<close>.
\<close>

definition isdigit :: "char \<Rightarrow> bool" where
  "isdigit c = (48 \<le> (of_char c :: nat) \<and> (of_char c :: nat) \<le> 57)"

definition digits_value :: "string \<Rightarrow> int" where
  "digits_value ds = foldl (\<lambda>acc c. acc * 10 + (int (of_char c) - 48)) 0 ds"

definition strip_sign :: "string \<Rightarrow> bool \<times> string" where
  "strip_sign s =
     (case s of
        [] \<Rightarrow> (False, s)
      | c # r \<Rightarrow> if c = CHR ''-'' then (True, r) else if c = CHR ''+'' then (False, r) else (False, s))"

definition stoi :: "string \<Rightarrow> error + int" where
  "stoi str =
     (let (negative, rest) = strip_sign (dropWhile isspace str);
          ds = takeWhile isdigit rest
      in if ds = [] then Inl InvalidArgument
         else (let v = (if negative then - digits_value ds else digits_value ds)
               in if v < - (2 ^ 31) \<or> 2 ^ 31 - 1 < v then Inl OutOfRange else Inr v))"

subsection \<open>make\_sftp\_server\<close>

text \<open>
  Modelled from the spec: \<^verbatim>\<open>mp::SftpServer\<close> (multipass/sshfs\_mount/sftp\_server.h is not
  among the sources). The spec gives the constructor
  \<^verbatim>\<open>(session, source_path, target_path, gid_map, uid_map, default_uid, default_gid)\<close>
  and \<^verbatim>\<open>stop()\<close>, a signal to end \<^verbatim>\<open>run()\<close>: the server is its seven arguments and the
  number of stop signals it has received.
\<close>

record sftp_server =
  srv_session :: ssh_session
  srv_source :: string
  srv_target :: string
  srv_gid_map :: "int \<rightharpoonup> int"
  srv_uid_map :: "int \<rightharpoonup> int"
  default_uid :: int
  default_gid :: int
  stop_signals :: nat

text \<open>
  Lines 111 to 120, the loop over the segments:
  \<^verbatim>\<open>
  bool needs_create = false;
  for (std::string partial: splitting)
  {
      if (needs_create || !std::filesystem::exists(partial))
      {
          needs_create = true;
          make_target_dir(session, partial);
          set_owner_for(session, partial);
      }
  }
  \<close>
  \<^verbatim>\<open>||\<close> does not evaluate \<^verbatim>\<open>exists\<close> once \<open>needs_create\<close> is set.
\<close>

definition create_segment :: "world \<Rightarrow> string \<Rightarrow> unit outcome" where
  "create_segment w partial =
     (case make_target_dir w partial of
        (Inl e, w1) \<Rightarrow> (Inl e, w1)
      | (Inr _, w1) \<Rightarrow> set_owner_for w1 partial)"

fun provision_loop :: "host \<Rightarrow> string list \<Rightarrow> bool \<Rightarrow> world \<Rightarrow> bool outcome" where
  "provision_loop h [] needs_create w = (Inr needs_create, w)"
| "provision_loop h (partial # rest) needs_create w =
     (case (if needs_create then Inr True
            else (case fs_exists h partial of Inl e \<Rightarrow> Inl e | Inr ex \<Rightarrow> Inr (\<not> ex))) of
        Inl e \<Rightarrow> (Inl e, w)
      | Inr True \<Rightarrow>
          (case create_segment w partial of
             (Inl e, w1) \<Rightarrow> (Inl e, w1)
           | (Inr _, w1) \<Rightarrow> provision_loop h rest True w1)
      | Inr False \<Rightarrow> provision_loop h rest needs_create w)"

text \<open>Lines 109 to 120: the split and the loop.\<close>

definition provision :: "host \<Rightarrow> world \<Rightarrow> string \<Rightarrow> bool outcome" where
  "provision h w target = provision_loop h (split_path target []) False w"

text \<open>
  Lines 122 to 129: \<^verbatim>\<open>id -u\<close>, its debug line, \<^verbatim>\<open>std::stoi\<close>, then the same for
  \<^verbatim>\<open>id -g\<close>. The uid is parsed before \<^verbatim>\<open>id -g\<close> is sent.
\<close>

definition debug_id_line :: "host \<Rightarrow> string \<Rightarrow> string \<Rightarrow> string \<Rightarrow> string" where
  "debug_id_line h line_no flag output =
     file_macro h @ '':'' @ line_no @ '' make_sftp_server(): `id -'' @ flag @ ''` = '' @ output"

definition resolve_default_identity :: "host \<Rightarrow> world \<Rightarrow> (int \<times> int) outcome" where
  "resolve_default_identity h w =
     (case run_cmd_default w ''id -u'' of
        (Inl e, w1) \<Rightarrow> (Inl e, w1)
      | (Inr output, w1) \<Rightarrow>
          (let w2 = log debug category (debug_id_line h ''124'' ''u'' output) w1 in
           case stoi output of
             Inl e \<Rightarrow> (Inl e, w2)
           | Inr uid \<Rightarrow>
               (case run_cmd_default w2 ''id -g'' of
                  (Inl e, w3) \<Rightarrow> (Inl e, w3)
                | (Inr output', w3) \<Rightarrow>
                    (let w4 = log debug category (debug_id_line h ''128'' ''g'' output') w3 in
                     case stoi output' of
                       Inl e \<Rightarrow> (Inl e, w4)
                     | Inr gid \<Rightarrow> (Inr (uid, gid), w4)))))"

text \<open>The first debug line; the ellipsis of the format string is three bytes of UTF-8.\<close>

definition debug_entry_line :: "host \<Rightarrow> string \<Rightarrow> string \<Rightarrow> string" where
  "debug_entry_line h source target =
     file_macro h @ '':105 make_sftp_server(source = '' @ source @ '', target = '' @ target
       @ '', '' @ [CHR 0xE2, CHR 0x80, CHR 0xA6] @ ''): ''"

definition make_sftp_server ::
  "host \<Rightarrow> world \<Rightarrow> string \<Rightarrow> string \<Rightarrow> (int \<rightharpoonup> int) \<Rightarrow> (int \<rightharpoonup> int) \<Rightarrow> sftp_server outcome" where
  "make_sftp_server h w source target gid_map uid_map =
     (let w0 = log debug category (debug_entry_line h source target) w in
      case check_sshfs_exists w0 of
        (Inl e, w1) \<Rightarrow> (Inl e, w1)
      | (Inr _, w1) \<Rightarrow>
          (case provision h w1 target of
             (Inl e, w2) \<Rightarrow> (Inl e, w2)
           | (Inr _, w2) \<Rightarrow>
               (case resolve_default_identity h w2 of
                  (Inl e, w3) \<Rightarrow> (Inl e, w3)
                | (Inr (uid, gid), w3) \<Rightarrow>
                    (Inr \<lparr>srv_session = session w3, srv_source = source, srv_target = target,
                          srv_gid_map = gid_map, srv_uid_map = uid_map,
                          default_uid = uid, default_gid = gid, stop_signals = 0\<rparr>, w3))))"

subsection \<open>SshfsMount: constructor, stop and destructor\<close>

text \<open>
  The bridge owns the server and the \<^verbatim>\<open>std::thread\<close>. Of the thread the model keeps
  what \<^verbatim>\<open>stop()\<close> reads and writes: \<^verbatim>\<open>joinable()\<close>, true from the constructor that
  starts the thread until \<^verbatim>\<open>join()\<close> returns. \<^verbatim>\<open>join()\<close> on a thread that is not
  joinable throws \<^verbatim>\<open>std::system_error\<close>. \<open>calls\<close> records, in order, the calls the
  bridge has made on its two members. What the worker itself does while it runs, and
  how long \<^verbatim>\<open>join()\<close> blocks, is outside the model.
\<close>

datatype call = server_stop | thread_join

record sshfs_mount =
  mount_server :: sftp_server
  joinable :: bool
  calls :: "call list"

text \<open>
  Modelled from the spec: \<^verbatim>\<open>SftpServer::stop()\<close> (not among the sources), the signal
  that ends the serve loop. The server counts the signals it has received.
\<close>

definition sftp_server_stop :: "sftp_server \<Rightarrow> sftp_server" where
  "sftp_server_stop srv = srv\<lparr>stop_signals := Suc (stop_signals srv)\<rparr>"

definition join :: "sshfs_mount \<Rightarrow> error + sshfs_mount" where
  "join m =
     (if joinable m then Inr (m\<lparr>joinable := False, calls := calls m @ [thread_join]\<rparr>)
      else Inl SystemError)"

definition SshfsMount ::
  "host \<Rightarrow> world \<Rightarrow> string \<Rightarrow> string \<Rightarrow> (int \<rightharpoonup> int) \<Rightarrow> (int \<rightharpoonup> int) \<Rightarrow> sshfs_mount outcome" where
  "SshfsMount h w source target gid_map uid_map =
     (case make_sftp_server h w source target gid_map uid_map of
        (Inl e, w') \<Rightarrow> (Inl e, w')
      | (Inr srv, w') \<Rightarrow> (Inr \<lparr>mount_server = srv, joinable = True, calls = []\<rparr>, w'))"

definition stop :: "sshfs_mount \<Rightarrow> error + sshfs_mount" where
  "stop m =
     (let m1 = m\<lparr>mount_server := sftp_server_stop (mount_server m),
                 calls := calls m @ [server_stop]\<rparr>
      in if joinable m1 then join m1 else Inr m1)"

definition destructor :: "sshfs_mount \<Rightarrow> error + sshfs_mount" where
  "destructor m = stop m"

section \<open>Vocabulary of the properties\<close>

subsection \<open>What provisioning sends\<close>

text \<open>
  \<open>sent w cmds\<close> is the world \<open>w\<close> after the session has run \<open>cmds\<close> and nothing was
  logged. \<open>new_cmds w w'\<close> are the commands run between \<open>w\<close> and \<open>w'\<close>.
\<close>

definition sent :: "world \<Rightarrow> string list \<Rightarrow> world" where
  "sent w cmds = w\<lparr>session := (session w)\<lparr>issued := issued (session w) @ cmds\<rparr>\<rparr>"

definition new_cmds :: "world \<Rightarrow> world \<Rightarrow> string list" where
  "new_cmds w w' = drop (length (issued (session w))) (issued (session w'))"

text \<open>
  The four commands of one created segment, on a guest \<open>r\<close> that has run \<open>hist\<close>: the
  directory creation, the two name queries of \<open>set_owner_for\<close>, and the ownership
  change, which carries the trimmed answers to those two queries.
\<close>

definition segment_cmds ::
  "(string list \<Rightarrow> string \<Rightarrow> ssh_process) \<Rightarrow> string list \<Rightarrow> string \<Rightarrow> string list" where
  "segment_cmds r hist seg =
     [mkdir_cmd seg, ''id -nu'', ''id -ng'',
      chown_cmd (trim_end (read_std_output (r (hist @ [mkdir_cmd seg]) ''id -nu'')))
                (trim_end (read_std_output (r (hist @ [mkdir_cmd seg, ''id -nu'']) ''id -ng'')))
                seg]"

fun provision_cmds ::
  "(string list \<Rightarrow> string \<Rightarrow> ssh_process) \<Rightarrow> string list \<Rightarrow> string list \<Rightarrow> string list" where
  "provision_cmds r hist [] = []"
| "provision_cmds r hist (seg # rest) =
     segment_cmds r hist seg @ provision_cmds r (hist @ segment_cmds r hist seg) rest"

text \<open>
  The segments from the first one that the host's filesystem does not report as found,
  to the last.
\<close>

definition to_create :: "host \<Rightarrow> string list \<Rightarrow> string list" where
  "to_create h segs = dropWhile (\<lambda>p. fs_status h p = found) segs"


definition is_mkdir :: "string \<Rightarrow> bool" where
  "is_mkdir c = prefix ''sudo mkdir -p '' c"

definition is_chown :: "string \<Rightarrow> bool" where
  "is_chown c = prefix ''sudo chown '' c"


definition provisioning_cmd :: "string \<Rightarrow> bool" where
  "provisioning_cmd c = (is_mkdir c \<or> c = ''id -nu'' \<or> c = ''id -ng'' \<or> is_chown c)"

text \<open>The default identity a construction ended with, when it ended with a server.\<close>

definition resolved_identity :: "sftp_server outcome \<Rightarrow> (int \<times> int) option" where
  "resolved_identity r =
     (case fst r of Inl e \<Rightarrow> None | Inr srv \<Rightarrow> Some (default_uid srv, default_gid srv))"

subsection \<open>A caller of the bridge\<close>

text \<open>\<open>n\<close> explicit calls of \<^verbatim>\<open>stop()\<close>, one after the other; an exception ends them.\<close>

fun stop_times :: "nat \<Rightarrow> sshfs_mount \<Rightarrow> error + sshfs_mount" where
  "stop_times 0 m = Inr m"
| "stop_times (Suc n) m = (case stop m of Inl e \<Rightarrow> Inl e | Inr m' \<Rightarrow> stop_times n m')"

subsection \<open>Concrete guests and hosts\<close>

definition newline :: char where
  "newline = CHR 0x0A"

definition line :: "string \<Rightarrow> string" where
  "line s = s @ [newline]"

definition exited :: "int \<Rightarrow> string \<Rightarrow> string \<Rightarrow> ssh_process" where
  "exited code out err = \<lparr>exit_code = code, read_std_output = out, read_std_error = err\<rparr>"

text \<open>An Ubuntu guest: user and group \<open>ubuntu\<close>, uid and gid 1000, every command exits 0.\<close>

definition guest_ubuntu :: "string list \<Rightarrow> string \<Rightarrow> ssh_process" where
  "guest_ubuntu hist cmd =
     (if cmd = ''id -u'' \<or> cmd = ''id -g'' then exited 0 (line ''1000'') []
      else if cmd = ''id -nu'' \<or> cmd = ''id -ng'' then exited 0 (line ''ubuntu'') []
      else if cmd = ''which sshfs'' then exited 0 (line ''/usr/bin/sshfs'') []
      else exited 0 [] [])"

text \<open>The same guest without sshfs: \<^verbatim>\<open>which\<close> exits 1.\<close>

definition guest_no_sshfs :: "string list \<Rightarrow> string \<Rightarrow> ssh_process" where
  "guest_no_sshfs hist cmd =
     (if cmd = ''which sshfs'' then exited 1 ''searched'' ''no sshfs in PATH''
      else guest_ubuntu hist cmd)"

text \<open>
  Guests that print \<open>out_u\<close> for \<^verbatim>\<open>id -u\<close> and \<open>out_g\<close> for \<^verbatim>\<open>id -g\<close>, and
  answer every other command as the Ubuntu guest does; and the guests that agree with
  the Ubuntu guest on every command but those two.
\<close>

definition guest_ids :: "string \<Rightarrow> string \<Rightarrow> string list \<Rightarrow> string \<Rightarrow> ssh_process" where
  "guest_ids out_u out_g hist cmd =
     (if cmd = ''id -u'' then exited 0 out_u []
      else if cmd = ''id -g'' then exited 0 out_g []
      else guest_ubuntu hist cmd)"

definition ubuntu_but_ids :: "(string list \<Rightarrow> string \<Rightarrow> ssh_process) \<Rightarrow> bool" where
  "ubuntu_but_ids r =
     (\<forall>hist cmd. cmd \<noteq> ''id -u'' \<and> cmd \<noteq> ''id -g'' \<longrightarrow> r hist cmd = guest_ubuntu hist cmd)"

text \<open>A guest where the session is root's.\<close>

definition guest_root :: "string list \<Rightarrow> string \<Rightarrow> ssh_process" where
  "guest_root hist cmd =
     (if cmd = ''id -nu'' \<or> cmd = ''id -ng'' then exited 0 (line ''root'') []
      else if cmd = ''id -u'' \<or> cmd = ''id -g'' then exited 0 (line ''0'') []
      else exited 0 [] [])"

definition fresh :: "(string list \<Rightarrow> string \<Rightarrow> ssh_process) \<Rightarrow> world" where
  "fresh r = \<lparr>session = \<lparr>respond = r, issued = []\<rparr>, logged = []\<rparr>"

text \<open>
  Hosts: one where nothing is found, one where everything is, and one with only
  \<^verbatim>\<open>/mnt\<close>.
\<close>

definition host_with :: "(string \<Rightarrow> file_status) \<Rightarrow> host" where
  "host_with f = \<lparr>fs_status = f, file_macro = ''sshfs_mount.cpp''\<rparr>"

definition host_empty :: host where
  "host_empty = host_with (\<lambda>p. not_found)"

definition host_full :: host where
  "host_full = host_with (\<lambda>p. found)"

definition host_mnt :: host where
  "host_mnt = host_with (\<lambda>p. if p = ''/mnt'' then found else not_found)"

text \<open>A target written with backslashes.\<close>

definition windows_path :: string where
  "windows_path = ''C:'' @ [backslash] @ ''Users'' @ [backslash] @ ''me''"

section \<open>Properties\<close>

subsection \<open>Running one command\<close>

lemma sent_simps:
  "respond (session (sent w cmds)) = respond (session w)"
  "issued (session (sent w cmds)) = issued (session w) @ cmds"
  "logged (sent w cmds) = logged w"
  "sent (sent w xs) ys = sent w (xs @ ys)"
  "sent w [] = w"
  by (simp_all add: sent_def)

lemma run_cmd_default_eq:
  "run_cmd_default w cmd =
     (if exit_code (respond (session w) (issued (session w)) cmd) \<noteq> 0
      then (Inl (RuntimeError (read_std_error (respond (session w) (issued (session w)) cmd))),
            sent w [cmd])
      else (Inr (read_std_output (respond (session w) (issued (session w)) cmd)), sent w [cmd]))"
  by (simp add: run_cmd_default_def run_cmd_def exec_def default_error_handler_def sent_def)

text \<open>
  C8. \<open>run_cmd\<close> runs the command once. When the exit status is zero it returns the
  captured standard output and does not call the handler. When the exit status is not
  zero it calls the supplied handler on the process, whose standard error and exit
  status the handler can read, and the handler's exception leaves \<open>run_cmd\<close>. So for a
  handler that throws, and both handlers of the file do, the output is returned exactly
  when the exit status is zero. The default handler, the one the two-argument overload
  passes, throws a runtime error that carries the captured standard error.
\<close>

theorem run_cmd_outcome:
  "(exit_code (respond (session w) (issued (session w)) cmd) = 0 \<longrightarrow>
      run_cmd w cmd error_handler =
        (Inr (read_std_output (respond (session w) (issued (session w)) cmd)), sent w [cmd])) \<and>
   (exit_code (respond (session w) (issued (session w)) cmd) \<noteq> 0 \<longrightarrow>
      run_cmd w cmd error_handler =
        (case error_handler (respond (session w) (issued (session w)) cmd) (sent w [cmd]) of
           (Inl e, w2) \<Rightarrow> (Inl e, w2)
         | (Inr u, w2) \<Rightarrow>
             (Inr (read_std_output (respond (session w) (issued (session w)) cmd)), w2))) \<and>
   (exit_code (respond (session w) (issued (session w)) cmd) \<noteq> 0 \<longrightarrow>
      run_cmd w cmd default_error_handler =
        (Inl (RuntimeError (read_std_error (respond (session w) (issued (session w)) cmd))),
         sent w [cmd])) \<and>
   ((\<exists>out w'. run_cmd w cmd default_error_handler = (Inr out, w')) \<longleftrightarrow>
      exit_code (respond (session w) (issued (session w)) cmd) = 0) \<and>
   ((\<exists>out w'. run_cmd w cmd sshfs_error_handler = (Inr out, w')) \<longleftrightarrow>
      exit_code (respond (session w) (issued (session w)) cmd) = 0) \<and>
   (run_cmd_default w cmd = run_cmd w cmd default_error_handler) \<and>
   ((\<exists>e w2. error_handler (respond (session w) (issued (session w)) cmd) (sent w [cmd]) = (Inl e, w2))
      \<longrightarrow>
      ((\<exists>out w'. run_cmd w cmd error_handler = (Inr out, w')) \<longleftrightarrow>
         exit_code (respond (session w) (issued (session w)) cmd) = 0))"
  by (auto simp: run_cmd_def run_cmd_default_def exec_def default_error_handler_def
      sshfs_error_handler_def sent_def Let_def)

text \<open>
  The theorem at a guest without sshfs, where \<^verbatim>\<open>which sshfs\<close> exits 1, with each of
  the two handlers, and at the Ubuntu guest, where \<^verbatim>\<open>id -nu\<close> exits 0.
\<close>

theorem run_cmd_outcome_witness:
  "exit_code (respond (session (fresh guest_no_sshfs)) (issued (session (fresh guest_no_sshfs)))
      ''which sshfs'') \<noteq> 0 \<and>
   run_cmd (fresh guest_no_sshfs) ''which sshfs'' default_error_handler =
     (Inl (RuntimeError ''no sshfs in PATH''), sent (fresh guest_no_sshfs) [''which sshfs'']) \<and>
   run_cmd (fresh guest_no_sshfs) ''which sshfs'' sshfs_error_handler =
     (Inl SSHFSMissingError,
      log warning category ''Unable to determine if 'sshfs' is installed: no sshfs in PATH''
        (sent (fresh guest_no_sshfs) [''which sshfs''])) \<and>
   exit_code (respond (session (fresh guest_ubuntu)) (issued (session (fresh guest_ubuntu)))
      ''id -nu'') = 0 \<and>
   run_cmd (fresh guest_ubuntu) ''id -nu'' default_error_handler =
     (Inr (line ''ubuntu''), sent (fresh guest_ubuntu) [''id -nu''])"
  using run_cmd_outcome [of "fresh guest_no_sshfs" "''which sshfs''" default_error_handler]
    run_cmd_outcome [of "fresh guest_no_sshfs" "''which sshfs''" sshfs_error_handler]
    run_cmd_outcome [of "fresh guest_ubuntu" "''id -nu''" default_error_handler]
  by (simp add: fresh_def guest_no_sshfs_def guest_ubuntu_def exited_def default_error_handler_def
      sshfs_error_handler_def)

subsection \<open>Stopping and destroying the bridge\<close>

lemma stop_eq:
  "stop m = Inr (m\<lparr>mount_server := sftp_server_stop (mount_server m), joinable := False,
                  calls := calls m @ server_stop # (if joinable m then [thread_join] else [])\<rparr>)"
  by (simp add: stop_def join_def Let_def)

text \<open>
  C9. Two calls of \<open>stop\<close> in succession both return without an exception. After the
  first the thread is not joinable, so a \<open>join\<close> would throw; the second call makes
  none: it only signals the server again, and the number of joins stays what it was.
\<close>

theorem stop_twice_joins_once:
  "\<exists>m1 m2. stop m = Inr m1 \<and> stop m1 = Inr m2 \<and>
      \<not> joinable m1 \<and> join m1 = Inl SystemError \<and>
      \<not> joinable m2 \<and> calls m2 = calls m1 @ [server_stop] \<and>
      count_list (calls m2) thread_join = count_list (calls m1) thread_join"
  by (simp add: stop_eq join_def)

lemma stop_times_stopped:
  "\<not> joinable m \<Longrightarrow>
     stop_times n m = Inr (m\<lparr>mount_server := (sftp_server_stop ^^ n) (mount_server m),
                            calls := calls m @ replicate n server_stop\<rparr>)"
proof (induction n arbitrary: m)
  case 0
  then show ?case by simp
next
  case (Suc n)
  then show ?case
    by (simp add: stop_eq funpow_swap1 replicate_app_Cons_same)
qed

lemma stop_times_then_stop:
  "joinable m \<Longrightarrow>
     \<exists>m1 m2. stop_times n m = Inr m1 \<and> stop m1 = Inr m2 \<and> \<not> joinable m2 \<and>
       calls m2 = calls m @ [server_stop, thread_join] @ replicate n server_stop"
proof (cases n)
  case 0
  assume "joinable m"
  with 0 show ?thesis by (simp add: stop_eq)
next
  case (Suc k)
  assume "joinable m"
  with Suc show ?thesis
    by (simp add: stop_eq stop_times_stopped replicate_append_same)
qed

subsection \<open>The commands of provisioning\<close>

lemma run_cmd_default_Inr:
  "run_cmd_default w cmd = (Inr out, w') \<Longrightarrow>
     w' = sent w [cmd] \<and> out = read_std_output (respond (session w) (issued (session w)) cmd)"
  by (auto simp: run_cmd_default_eq split: if_splits)

lemma run_cmd_default_world:
  "run_cmd_default w cmd = (r, w') \<Longrightarrow> w' = sent w [cmd]"
  by (auto simp: run_cmd_default_eq split: if_splits)

lemma make_target_dir_world:
  "make_target_dir w t = (r, w') \<Longrightarrow> w' = sent w [mkdir_cmd t]"
  by (auto simp: make_target_dir_def split: prod.splits sum.splits dest: run_cmd_default_world)

lemma set_owner_for_Inr:
  assumes "set_owner_for w t = (Inr u, w')"
  shows "w' = sent w [''id -nu'', ''id -ng'',
           chown_cmd (trim_end (read_std_output (respond (session w) (issued (session w)) ''id -nu'')))
                     (trim_end (read_std_output (respond (session w) (issued (session w) @ [''id -nu'']) ''id -ng''))) t]"
proof -
  from assms obtain vu w1 where a: "run_cmd_default w ''id -nu'' = (Inr vu, w1)"
    by (auto simp: set_owner_for_def split: prod.splits sum.splits)
  from assms a obtain vg w2 where b: "run_cmd_default w1 ''id -ng'' = (Inr vg, w2)"
    by (auto simp: set_owner_for_def split: prod.splits sum.splits)
  from assms a b obtain x where c: "run_cmd_default w2 (chown_cmd (trim_end vu) (trim_end vg) t) = (Inr x, w')"
    by (auto simp: set_owner_for_def split: prod.splits sum.splits)
  from run_cmd_default_Inr[OF a] run_cmd_default_Inr[OF b] run_cmd_default_Inr[OF c]
  show ?thesis by (simp add: sent_simps)
qed

lemma set_owner_for_Inl:
  assumes "set_owner_for w t = (Inl e, w')"
  shows "\<exists>cmds. w' = sent w cmds \<and> cmds \<noteq> [] \<and> prefix cmds [''id -nu'', ''id -ng'',
           chown_cmd (trim_end (read_std_output (respond (session w) (issued (session w)) ''id -nu'')))
                     (trim_end (read_std_output (respond (session w) (issued (session w) @ [''id -nu'']) ''id -ng''))) t]"
proof (cases "run_cmd_default w ''id -nu''")
  case (Pair r1 w1)
  note a = this
  show ?thesis
  proof (cases r1)
    case (Inl e1)
    with a assms have "w' = sent w [''id -nu'']"
      by (auto simp: set_owner_for_def dest: run_cmd_default_world)
    then show ?thesis by (intro exI[of _ "[''id -nu'']"]) simp
  next
    case (Inr vu)
    note a' = a[unfolded Inr]
    obtain r2 w2 where b: "run_cmd_default w1 ''id -ng'' = (r2, w2)" by force
    show ?thesis
    proof (cases r2)
      case (Inl e2)
      with a' b assms have "w' = sent w [''id -nu'', ''id -ng'']"
        by (auto simp: set_owner_for_def sent_simps dest!: run_cmd_default_world)
      then show ?thesis by (intro exI[of _ "[''id -nu'', ''id -ng'']"]) simp
    next
      case (Inr vg)
      note b' = b[unfolded Inr]
      from assms a' b' obtain r3 where
        c: "run_cmd_default w2 (chown_cmd (trim_end vu) (trim_end vg) t) = (r3, w')"
        by (auto simp: set_owner_for_def split: prod.splits sum.splits)
      from run_cmd_default_Inr[OF a'] run_cmd_default_Inr[OF b'] run_cmd_default_world[OF c]
      have "w' = sent w [''id -nu'', ''id -ng'',
           chown_cmd (trim_end (read_std_output (respond (session w) (issued (session w)) ''id -nu'')))
                     (trim_end (read_std_output (respond (session w) (issued (session w) @ [''id -nu'']) ''id -ng''))) t]"
        by (simp add: sent_simps)
      then show ?thesis by (intro exI[of _ "[''id -nu'', ''id -ng'',
           chown_cmd (trim_end (read_std_output (respond (session w) (issued (session w)) ''id -nu'')))
                     (trim_end (read_std_output (respond (session w) (issued (session w) @ [''id -nu'']) ''id -ng''))) t]"]) simp
    qed
  qed
qed

lemma create_segment_Inr:
  assumes "create_segment w seg = (Inr u, w')"
  shows "w' = sent w (segment_cmds (respond (session w)) (issued (session w)) seg)"
proof -
  from assms obtain x w1 where a: "make_target_dir w seg = (Inr x, w1)"
    and b: "set_owner_for w1 seg = (Inr u, w')"
    by (auto simp: create_segment_def split: prod.splits sum.splits)
  from make_target_dir_world[OF a] set_owner_for_Inr[OF b]
  show ?thesis by (simp add: sent_simps segment_cmds_def)
qed

lemma create_segment_Inl:
  assumes "create_segment w seg = (Inl e, w')"
  shows "\<exists>cmds. w' = sent w cmds \<and>
           prefix cmds (segment_cmds (respond (session w)) (issued (session w)) seg)"
proof (cases "make_target_dir w seg")
  case (Pair r1 w1)
  note a = make_target_dir_world[OF Pair]
  show ?thesis
  proof (cases r1)
    case (Inl e1)
    with Pair assms a have "w' = sent w [mkdir_cmd seg]"
      by (simp add: create_segment_def)
    then show ?thesis
      by (intro exI[of _ "[mkdir_cmd seg]"]) (simp add: segment_cmds_def)
  next
    case (Inr x)
    with Pair assms have "set_owner_for w1 seg = (Inl e, w')"
      by (simp add: create_segment_def)
    from set_owner_for_Inl[OF this] obtain cmds where
      "w' = sent w1 cmds" and
      "prefix cmds [''id -nu'', ''id -ng'',
           chown_cmd (trim_end (read_std_output (respond (session w1) (issued (session w1)) ''id -nu'')))
                     (trim_end (read_std_output (respond (session w1) (issued (session w1) @ [''id -nu'']) ''id -ng''))) seg]"
      by blast
    with a show ?thesis
      by (intro exI[of _ "mkdir_cmd seg # cmds"]) (simp add: sent_simps segment_cmds_def)
  qed
qed

lemma provision_loop_Inr:
  "provision_loop h segs nc w = (Inr b, w') \<Longrightarrow>
     w' = sent w (provision_cmds (respond (session w)) (issued (session w))
                    (if nc then segs else to_create h segs))"
proof (induction segs arbitrary: nc w)
  case Nil
  then show ?case by (simp add: to_create_def sent_def)
next
  case (Cons seg rest)
  show ?case
  proof (cases "nc \<or> fs_status h seg = not_found")
    case True
    then obtain u w1 where c: "create_segment w seg = (Inr u, w1)"
      and r: "provision_loop h rest True w1 = (Inr b, w')"
      using Cons.prems
      by (auto simp: fs_exists_def split: prod.splits sum.splits if_splits file_status.splits)
    from Cons.IH[OF r] create_segment_Inr[OF c] True show ?thesis
      by (auto simp: to_create_def sent_simps)
  next
    case False
    then have f: "fs_status h seg = found" and r: "provision_loop h rest False w = (Inr b, w')"
      using Cons.prems
      by (auto simp: fs_exists_def split: prod.splits sum.splits if_splits file_status.splits)
    from Cons.IH[OF r] f False show ?thesis
      by (auto simp: to_create_def)
  qed
qed

lemma provision_loop_Inl:
  "provision_loop h segs nc w = (Inl e, w') \<Longrightarrow>
     \<exists>cmds. w' = sent w cmds \<and>
       prefix cmds (provision_cmds (respond (session w)) (issued (session w))
                      (if nc then segs else to_create h segs))"
proof (induction segs arbitrary: nc w)
  case Nil
  then show ?case by simp
next
  case (Cons seg rest)
  consider (err) "\<not> nc" "fs_status h seg = status_error"
    | (skip) "\<not> nc" "fs_status h seg = found"
    | (make) "nc \<or> fs_status h seg = not_found"
    by (cases "fs_status h seg") auto
  then show ?case
  proof cases
    case err
    with Cons.prems have "w' = w" by (simp add: fs_exists_def)
    then show ?thesis by (intro exI[of _ "[]"]) (simp add: sent_simps)
  next
    case skip
    with Cons.prems have "provision_loop h rest False w = (Inl e, w')"
      by (simp add: fs_exists_def)
    from Cons.IH[OF this] skip show ?thesis by (simp add: to_create_def)
  next
    case make
    then have tc: "(if nc then seg # rest else to_create h (seg # rest)) = seg # rest"
      by (auto simp: to_create_def)
    obtain r1 w1 where c: "create_segment w seg = (r1, w1)" by force
    show ?thesis
    proof (cases r1)
      case (Inl e1)
      with c make Cons.prems have "w1 = w'" "create_segment w seg = (Inl e, w')"
        by (auto simp: fs_exists_def split: if_splits)
      from create_segment_Inl[OF this(2)] show ?thesis
        unfolding tc by (auto simp: prefix_def)
    next
      case (Inr u)
      with c make Cons.prems have r: "provision_loop h rest True w1 = (Inl e, w')"
        by (auto simp: fs_exists_def split: if_splits)
      note cs = create_segment_Inr[OF c[unfolded Inr]]
      from Cons.IH[OF r] obtain cmds where
        "w' = sent w1 cmds"
        "prefix cmds (provision_cmds (respond (session w1)) (issued (session w1)) rest)"
        by auto
      with cs show ?thesis
        unfolding tc
        by (intro exI[of _ "segment_cmds (respond (session w)) (issued (session w)) seg @ cmds"])
           (simp add: sent_simps)
    qed
  qed
qed

lemma provision_loop_flag:
  "provision_loop h segs nc w = (Inr b, w') \<Longrightarrow> b = (nc \<or> to_create h segs \<noteq> [])"
proof (induction segs arbitrary: nc w)
  case Nil
  then show ?case by (simp add: to_create_def)
next
  case (Cons seg rest)
  then show ?case
    by (auto simp: to_create_def fs_exists_def split: prod.splits sum.splits if_splits file_status.splits)
qed


lemma new_cmds_sent: "new_cmds w (sent w cmds) = cmds"
  by (simp add: new_cmds_def sent_def)

lemma is_mkdir_simps:
  "is_mkdir (mkdir_cmd t)"
  "\<not> is_mkdir (chown_cmd u g t)"
  "\<not> is_mkdir ''id -nu''"
  "\<not> is_mkdir ''id -ng''"
  by (simp_all add: is_mkdir_def mkdir_cmd_def chown_cmd_def)

lemma is_chown_simps:
  "is_chown (chown_cmd u g t)"
  by (simp_all add: is_chown_def chown_cmd_def)

lemma filter_mkdir_segment_cmds:
  "filter is_mkdir (segment_cmds r hist seg) = [mkdir_cmd seg]"
  unfolding segment_cmds_def by (simp add: is_mkdir_simps)

lemma filter_mkdir_provision_cmds:
  "filter is_mkdir (provision_cmds r hist segs) = map mkdir_cmd segs"
  by (induction segs arbitrary: hist) (simp_all add: filter_mkdir_segment_cmds)

lemma segment_cmds_provisioning:
  "c \<in> set (segment_cmds r hist seg) \<Longrightarrow> provisioning_cmd c"
  unfolding segment_cmds_def provisioning_cmd_def
  using is_mkdir_simps(1) is_chown_simps by fastforce

lemma provision_cmds_provisioning:
  "c \<in> set (provision_cmds r hist segs) \<Longrightarrow> provisioning_cmd c"
  by (induction segs arbitrary: hist) (auto dest: segment_cmds_provisioning)



subsection \<open>The segments of a path\<close>

lemma split_path_loop_inv:
  "\<forall>x\<in>set sp. prefix x dir \<Longrightarrow> sorted_wrt prefix sp \<Longrightarrow>
   split_path_loop cs dir sp = (d, sp') \<Longrightarrow>
     d = dir @ normalized cs \<and> (\<forall>x\<in>set sp'. prefix x d) \<and> sorted_wrt prefix sp'"
proof (induction cs arbitrary: dir sp)
  case Nil
  then show ?case by (simp add: normalized_def)
next
  case (Cons c cs)
  let ?dir' = "dir @ [if backslash = c then slash else c]"
  let ?sp' = "if (backslash = c \<or> slash = c) \<and> dir \<noteq> [] then sp @ [dir] else sp"
  have a: "\<forall>x\<in>set ?sp'. prefix x ?dir'"
    using Cons.prems(1) by (auto intro: prefix_order.trans)
  have b: "sorted_wrt prefix ?sp'"
    using Cons.prems(1,2) by (auto simp: sorted_wrt_append)
  have c: "split_path_loop cs ?dir' ?sp' = (d, sp')"
    using Cons.prems(3) by simp
  from Cons.IH[OF a b c] show ?case
    by (auto simp: normalized_def)
qed

lemma split_path_facts:
  "split_path path [] \<noteq> [] \<and> last (split_path path []) = normalized path \<and>
   sorted_wrt prefix (split_path path []) \<and>
   (\<forall>x\<in>set (split_path path []). prefix x (normalized path))"
proof -
  obtain d sp where e: "split_path_loop path [] [] = (d, sp)" by force
  from split_path_loop_inv[OF _ _ e]
  have "d = normalized path" "\<forall>x\<in>set sp. prefix x d" "sorted_wrt prefix sp" by auto
  then show ?thesis
    by (auto simp: split_path_def e sorted_wrt_append)
qed

text \<open>
  C4. For every path, \<open>split_path\<close> started on the empty vector gives at least one
  segment; each segment is a prefix of the next, so the lengths do not decrease; and the
  last segment is the path with every backslash replaced by a forward slash.
\<close>

theorem split_path_prefix_chain:
  "split_path path [] \<noteq> [] \<and>
   last (split_path path []) = normalized path \<and>
   (\<forall>i. Suc i < length (split_path path []) \<longrightarrow>
      prefix (split_path path [] ! i) (split_path path [] ! Suc i) \<and>
      length (split_path path [] ! i) \<le> length (split_path path [] ! Suc i))"
proof -
  have s: "sorted_wrt prefix (split_path path [])" using split_path_facts by blast
  have "prefix (split_path path [] ! i) (split_path path [] ! Suc i)"
    if "Suc i < length (split_path path [])" for i
    using s that by (simp add: sorted_wrt_iff_nth_less)
  then show ?thesis
    using split_path_facts[of path] by (auto dest: prefix_length_le)
qed

lemma split_mnt_data: "split_path ''/mnt/data'' [] = [''/mnt'', ''/mnt/data'']"
  by (simp add: split_path_def backslash_def slash_def)

lemma split_windows:
  "split_path windows_path [] = [''C:'', ''C:/Users'', ''C:/Users/me'']"
  "normalized windows_path = ''C:/Users/me''"
  by (simp_all add: windows_path_def split_path_def normalized_def backslash_def slash_def)

text \<open>The theorem at \<^verbatim>\<open>C:\Users\me\<close>, which has three segments.\<close>

theorem split_path_prefix_chain_witness:
  "split_path windows_path [] = [''C:'', ''C:/Users'', ''C:/Users/me''] \<and>
   last (split_path windows_path []) = ''C:/Users/me'' \<and>
   Suc 0 < length (split_path windows_path []) \<and>
   prefix ''C:'' ''C:/Users'' \<and> length ''C:'' \<le> length ''C:/Users''"
  using split_path_prefix_chain [of windows_path]
  by (simp add: split_windows)

lemma trim_ubuntu: "trim_end (line ''ubuntu'') = ''ubuntu''"
  by (simp add: trim_end_def isspace_def newline_def line_def)

lemma guest_ubuntu_simps:
  "guest_ubuntu hist ''id -nu'' = exited 0 (line ''ubuntu'') []"
  "guest_ubuntu hist ''id -ng'' = exited 0 (line ''ubuntu'') []"
  "guest_ubuntu hist ''id -u'' = exited 0 (line ''1000'') []"
  "guest_ubuntu hist ''id -g'' = exited 0 (line ''1000'') []"
  "guest_ubuntu hist ''which sshfs'' = exited 0 (line ''/usr/bin/sshfs'') []"
  "guest_ubuntu hist (mkdir_cmd t) = exited 0 [] []"
  "guest_ubuntu hist (chown_cmd u g t) = exited 0 [] []"
  by (simp_all add: guest_ubuntu_def mkdir_cmd_def chown_cmd_def)

lemma ubuntu_but_ids_simps:
  assumes "ubuntu_but_ids r"
  shows "r hist ''id -nu'' = exited 0 (line ''ubuntu'') []"
    and "r hist ''id -ng'' = exited 0 (line ''ubuntu'') []"
    and "r hist ''which sshfs'' = exited 0 (line ''/usr/bin/sshfs'') []"
    and "r hist (mkdir_cmd t) = exited 0 [] []"
    and "r hist (chown_cmd u g t) = exited 0 [] []"
proof -
  have ne: "mkdir_cmd t \<noteq> ''id -u''" "mkdir_cmd t \<noteq> ''id -g''"
    "chown_cmd u g t \<noteq> ''id -u''" "chown_cmd u g t \<noteq> ''id -g''"
    by (simp_all add: mkdir_cmd_def chown_cmd_def)
  from assms have e: "cmd \<noteq> ''id -u'' \<Longrightarrow> cmd \<noteq> ''id -g'' \<Longrightarrow> r hist cmd = guest_ubuntu hist cmd"
    for cmd
    by (simp add: ubuntu_but_ids_def)
  show "r hist ''id -nu'' = exited 0 (line ''ubuntu'') []"
    and "r hist ''id -ng'' = exited 0 (line ''ubuntu'') []"
    and "r hist ''which sshfs'' = exited 0 (line ''/usr/bin/sshfs'') []"
    by (simp_all add: e guest_ubuntu_simps)
  show "r hist (mkdir_cmd t) = exited 0 [] []"
    and "r hist (chown_cmd u g t) = exited 0 [] []"
    by (simp_all add: e [OF ne(1,2)] e [OF ne(3,4)] guest_ubuntu_simps)
qed

lemma ubuntu_but_ids_guests:
  "ubuntu_but_ids guest_ubuntu" "ubuntu_but_ids (guest_ids out_u out_g)"
  by (simp_all add: ubuntu_but_ids_def guest_ids_def)

lemma exited_simps:
  "exit_code (exited c out err) = c"
  "read_std_output (exited c out err) = out"
  "read_std_error (exited c out err) = err"
  by (simp_all add: exited_def)

lemma fresh_simps:
  "respond (session (fresh r)) = r" "issued (session (fresh r)) = []" "logged (fresh r) = []"
  by (simp_all add: fresh_def)

lemma fresh_ubuntu: "ubuntu_but_ids (respond (session (fresh guest_ubuntu)))"
  by (simp add: fresh_simps ubuntu_but_ids_guests)

lemma create_segment_ubuntu:
  "ubuntu_but_ids (respond (session w)) \<Longrightarrow>
     create_segment w seg =
       (Inr (), sent w [mkdir_cmd seg, ''id -nu'', ''id -ng'', chown_cmd ''ubuntu'' ''ubuntu'' seg])"
  by (simp add: create_segment_def make_target_dir_def set_owner_for_def run_cmd_default_eq
      ubuntu_but_ids_simps exited_simps sent_simps trim_ubuntu)

lemma provision_ubuntu_mnt_data:
  "ubuntu_but_ids (respond (session w)) \<Longrightarrow>
   provision host_empty w ''/mnt/data'' =
     (Inr True, sent w
        [mkdir_cmd ''/mnt'', ''id -nu'', ''id -ng'', chown_cmd ''ubuntu'' ''ubuntu'' ''/mnt'',
         mkdir_cmd ''/mnt/data'', ''id -nu'', ''id -ng'', chown_cmd ''ubuntu'' ''ubuntu'' ''/mnt/data''])"
  by (simp add: provision_def split_mnt_data host_empty_def host_with_def fs_exists_def
      create_segment_ubuntu sent_simps)

subsection \<open>Which segments are created\<close>




lemma to_create_subset: "set (to_create h segs) \<subseteq> set segs"
  unfolding to_create_def by (rule set_dropWhileD[THEN subsetI])


lemma provision_all_found:
  "\<forall>seg \<in> set segs. fs_status h seg = found \<Longrightarrow> provision_loop h segs False w = (Inr False, w)"
  by (induction segs) (simp_all add: fs_exists_def)





lemma provision_ubuntu_mnt:
  "ubuntu_but_ids (respond (session w)) \<Longrightarrow>
   provision host_mnt w ''/mnt/data'' =
     (Inr True, sent w
        [mkdir_cmd ''/mnt/data'', ''id -nu'', ''id -ng'', chown_cmd ''ubuntu'' ''ubuntu'' ''/mnt/data''])"
  by (simp add: provision_def split_mnt_data host_mnt_def host_with_def fs_exists_def
      create_segment_ubuntu sent_simps)


lemma provision_world:
  assumes "provision h w target = (r, w')"
  shows "\<exists>cmds. w' = sent w cmds \<and>
           prefix cmds (provision_cmds (respond (session w)) (issued (session w))
                          (to_create h (split_path target [])))"
proof (cases r)
  case (Inl e)
  with assms provision_loop_Inl [of h "split_path target []" False w e w']
  show ?thesis by (simp add: provision_def)
next
  case (Inr b)
  with assms provision_loop_Inr [of h "split_path target []" False w b w']
  show ?thesis by (auto simp: provision_def)
qed

text \<open>
  C10. Whatever provisioning ends with, every command it has sent is a directory
  creation, one of the two name queries or an ownership change: no command asks the
  guest whether a segment exists. The directories created so far are a prefix of the
  list \<open>to_create\<close> computes from the host's filesystem and the target alone; when
  provisioning returns they are that list, so on two guests the same host creates the
  same directories.
\<close>

theorem provisioning_decided_on_host:
  "(provision h w target = (r, w') \<longrightarrow>
      (\<forall>c \<in> set (new_cmds w w'). provisioning_cmd c) \<and>
      prefix (filter is_mkdir (new_cmds w w'))
             (map mkdir_cmd (to_create h (split_path target [])))) \<and>
   (provision h w target = (Inr b, w') \<and> provision h v target = (Inr b', v') \<longrightarrow>
      b = b' \<and>
      filter is_mkdir (new_cmds w w') = map mkdir_cmd (to_create h (split_path target [])) \<and>
      filter is_mkdir (new_cmds v v') = filter is_mkdir (new_cmds w w'))"
proof (intro conjI impI)
  assume run: "provision h w target = (r, w')"
  from provision_world [OF run] obtain cmds where
    w': "w' = sent w cmds" and
    p: "prefix cmds (provision_cmds (respond (session w)) (issued (session w))
                       (to_create h (split_path target [])))"
    by blast
  from p show "\<forall>c \<in> set (new_cmds w w'). provisioning_cmd c"
    unfolding w' new_cmds_sent
    by (auto dest: set_mono_prefix intro: provision_cmds_provisioning)
  from filter_mono_prefix [OF p, of is_mkdir]
  show "prefix (filter is_mkdir (new_cmds w w'))
          (map mkdir_cmd (to_create h (split_path target [])))"
    unfolding w' new_cmds_sent by (simp add: filter_mkdir_provision_cmds)
next
  assume runs: "provision h w target = (Inr b, w') \<and> provision h v target = (Inr b', v')"
  then have a: "provision_loop h (split_path target []) False w = (Inr b, w')"
    and c: "provision_loop h (split_path target []) False v = (Inr b', v')"
    by (simp_all add: provision_def)
  from provision_loop_flag [OF a] provision_loop_flag [OF c] show "b = b'" by simp
  from provision_loop_Inr [OF a]
  show m: "filter is_mkdir (new_cmds w w') = map mkdir_cmd (to_create h (split_path target []))"
    by (simp add: new_cmds_sent filter_mkdir_provision_cmds)
  from provision_loop_Inr [OF c]
  show "filter is_mkdir (new_cmds v v') = filter is_mkdir (new_cmds w w')"
    unfolding m by (simp add: new_cmds_sent filter_mkdir_provision_cmds)
qed

lemma guest_root_simps:
  "guest_root hist ''id -nu'' = exited 0 (line ''root'') []"
  "guest_root hist ''id -ng'' = exited 0 (line ''root'') []"
  "guest_root hist (mkdir_cmd t) = exited 0 [] []"
  "guest_root hist (chown_cmd u g t) = exited 0 [] []"
  by (simp_all add: guest_root_def mkdir_cmd_def chown_cmd_def)

lemma trim_root: "trim_end (line ''root'') = ''root''"
  by (simp add: trim_end_def isspace_def newline_def line_def)

lemma provision_root_mnt:
  "provision host_mnt (fresh guest_root) ''/mnt/data'' =
     (Inr True, sent (fresh guest_root)
        [mkdir_cmd ''/mnt/data'', ''id -nu'', ''id -ng'', chown_cmd ''root'' ''root'' ''/mnt/data''])"
  by (simp add: provision_def split_mnt_data host_mnt_def host_with_def fs_exists_def
      create_segment_def make_target_dir_def set_owner_for_def run_cmd_default_eq
      guest_root_simps exited_simps sent_simps fresh_simps trim_root)

text \<open>
  The theorem at \<^verbatim>\<open>/mnt/data\<close> on the host that has \<^verbatim>\<open>/mnt\<close> only, with the
  Ubuntu guest and with root's guest: both are sent the creation of \<^verbatim>\<open>/mnt/data\<close>
  and no other.
\<close>

theorem provisioning_decided_on_host_witness:
  "provision host_mnt (fresh guest_ubuntu) ''/mnt/data'' =
     (Inr True, sent (fresh guest_ubuntu)
        [mkdir_cmd ''/mnt/data'', ''id -nu'', ''id -ng'',
         chown_cmd ''ubuntu'' ''ubuntu'' ''/mnt/data'']) \<and>
   provision host_mnt (fresh guest_root) ''/mnt/data'' =
     (Inr True, sent (fresh guest_root)
        [mkdir_cmd ''/mnt/data'', ''id -nu'', ''id -ng'', chown_cmd ''root'' ''root'' ''/mnt/data'']) \<and>
   filter is_mkdir (new_cmds (fresh guest_root) (sent (fresh guest_root)
        [mkdir_cmd ''/mnt/data'', ''id -nu'', ''id -ng'', chown_cmd ''root'' ''root'' ''/mnt/data'']))
     = filter is_mkdir (new_cmds (fresh guest_ubuntu) (sent (fresh guest_ubuntu)
        [mkdir_cmd ''/mnt/data'', ''id -nu'', ''id -ng'',
         chown_cmd ''ubuntu'' ''ubuntu'' ''/mnt/data''])) \<and>
   filter is_mkdir (new_cmds (fresh guest_ubuntu) (sent (fresh guest_ubuntu)
        [mkdir_cmd ''/mnt/data'', ''id -nu'', ''id -ng'',
         chown_cmd ''ubuntu'' ''ubuntu'' ''/mnt/data''])) =
     map mkdir_cmd (to_create host_mnt (split_path ''/mnt/data'' [])) \<and>
   provisioning_cmd (chown_cmd ''ubuntu'' ''ubuntu'' ''/mnt/data'')"
proof -
  note a = provision_ubuntu_mnt [OF fresh_ubuntu]
  note b = provision_root_mnt
  from provisioning_decided_on_host
    [where h = host_mnt and target = "''/mnt/data''" and w = "fresh guest_ubuntu"
       and r = "Inr True" and b = True and b' = True and v = "fresh guest_root"
       and w' = "sent (fresh guest_ubuntu)
        [mkdir_cmd ''/mnt/data'', ''id -nu'', ''id -ng'',
         chown_cmd ''ubuntu'' ''ubuntu'' ''/mnt/data'']"
       and v' = "sent (fresh guest_root)
        [mkdir_cmd ''/mnt/data'', ''id -nu'', ''id -ng'', chown_cmd ''root'' ''root'' ''/mnt/data'']"]
    a b
  show ?thesis
    by (simp add: new_cmds_sent)
qed

subsection \<open>The preflight\<close>

lemma log_simps:
  "session (log lvl cat msg w) = session w"
  "logged (log lvl cat msg w) = logged w @ [(lvl, cat, msg)]"
  "sent (log lvl cat msg w) cmds = log lvl cat msg (sent w cmds)"
  by (simp_all add: log_def sent_def)

lemma check_sshfs_exists_eq:
  "check_sshfs_exists w =
     (if exit_code (respond (session w) (issued (session w)) ''which sshfs'') \<noteq> 0
      then (Inl SSHFSMissingError,
            log warning category
              (''Unable to determine if 'sshfs' is installed: '' @
                 read_std_error (respond (session w) (issued (session w)) ''which sshfs''))
              (sent w [''which sshfs'']))
      else (Inr (), sent w [''which sshfs'']))"
  by (simp add: check_sshfs_exists_def run_cmd_def exec_def sshfs_error_handler_def sent_def)

text \<open>
  C5. When \<^verbatim>\<open>which sshfs\<close> exits with a status other than zero, the constructor of
  the bridge throws \<open>SSHFSMissingError\<close>. The last line logged is the warning that ends
  with the captured standard error, and \<^verbatim>\<open>which sshfs\<close> is the only command the
  session has run: no directory is created and no owner changed.
\<close>

theorem missing_sshfs_aborts_construction:
  assumes "exit_code (respond (session w) (issued (session w)) ''which sshfs'') \<noteq> 0"
  shows "\<exists>w'. SshfsMount h w source target gid_map uid_map = (Inl SSHFSMissingError, w') \<and>
           make_sftp_server h w source target gid_map uid_map = (Inl SSHFSMissingError, w') \<and>
           new_cmds w w' = [''which sshfs''] \<and>
           logged w' = logged w @
             [(debug, category, debug_entry_line h source target),
              (warning, category,
               ''Unable to determine if 'sshfs' is installed: '' @
                 read_std_error (respond (session w) (issued (session w)) ''which sshfs''))]"
  using assms
  by (simp add: SshfsMount_def make_sftp_server_def check_sshfs_exists_eq log_simps
      new_cmds_def sent_simps)

lemma guest_no_sshfs_which:
  "guest_no_sshfs hist ''which sshfs'' = exited 1 ''searched'' ''no sshfs in PATH''"
  by (simp add: guest_no_sshfs_def)

text \<open>The theorem at the guest without sshfs.\<close>

theorem missing_sshfs_aborts_construction_witness:
  "exit_code (respond (session (fresh guest_no_sshfs)) (issued (session (fresh guest_no_sshfs)))
      ''which sshfs'') \<noteq> 0 \<and>
   (\<exists>w'. SshfsMount host_empty (fresh guest_no_sshfs) ''/home/me'' ''/mnt/data''
            Map.empty Map.empty = (Inl SSHFSMissingError, w') \<and>
         new_cmds (fresh guest_no_sshfs) w' = [''which sshfs''] \<and>
         logged w' =
           [(debug, category, debug_entry_line host_empty ''/home/me'' ''/mnt/data''),
            (warning, category,
             ''Unable to determine if 'sshfs' is installed: no sshfs in PATH'')])"
proof -
  have e: "exit_code (respond (session (fresh guest_no_sshfs))
             (issued (session (fresh guest_no_sshfs))) ''which sshfs'') \<noteq> 0"
    by (simp add: fresh_simps guest_no_sshfs_which exited_simps)
  from missing_sshfs_aborts_construction [OF e, of host_empty "''/home/me''" "''/mnt/data''"
         Map.empty Map.empty]
  show ?thesis
    using e by (simp add: fresh_simps guest_no_sshfs_which exited_simps) blast
qed

subsection \<open>What std::stoi accepts\<close>

lemma isdigit_not_isspace: "isdigit c \<Longrightarrow> \<not> isspace c"
  by (auto simp: isdigit_def isspace_def)

lemma isdigit_not_sign: "isdigit c \<Longrightarrow> c \<noteq> CHR ''-'' \<and> c \<noteq> CHR ''+''"
  by (auto simp: isdigit_def)

lemma takeWhile_isdigit_spaces:
  "\<forall>c\<in>set ws. isspace c \<Longrightarrow> takeWhile isdigit (xs @ ws) = takeWhile isdigit xs"
proof (cases "\<forall>x\<in>set xs. isdigit x")
  case True
  assume "\<forall>c\<in>set ws. isspace c"
  then have "takeWhile isdigit ws = []"
    by (cases ws) (auto dest: isdigit_not_isspace)
  with True show ?thesis by (simp add: takeWhile_append takeWhile_eq_all_conv [THEN iffD2])
next
  case False
  then show ?thesis by (auto simp: takeWhile_append)
qed

lemma stoi_append_spaces:
  assumes "\<forall>c\<in>set ws. isspace c"
  shows "stoi (out @ ws) = stoi out"
proof (cases "\<forall>c\<in>set out. isspace c")
  case True
  with assms have "dropWhile isspace (out @ ws) = []" "dropWhile isspace out = []" by auto
  then show ?thesis unfolding stoi_def by (simp only:)
next
  case False
  then have d: "dropWhile isspace (out @ ws) = dropWhile isspace out @ ws"
    by (auto simp: dropWhile_append)
  from False obtain c r where cr: "dropWhile isspace out = c # r"
    by (cases "dropWhile isspace out") auto
  have s: "strip_sign (c # r @ ws) = (fst (strip_sign (c # r)), snd (strip_sign (c # r)) @ ws)"
    by (simp add: strip_sign_def)
  show ?thesis
    unfolding stoi_def d cr
    by (simp add: s split_beta Let_def takeWhile_isdigit_spaces [OF assms])
qed

lemma dropWhile_hd_id: "xs = [] \<or> \<not> P (hd xs) \<Longrightarrow> dropWhile P xs = xs"
  by (cases xs) auto

lemma takeWhile_hd_Nil: "xs = [] \<or> \<not> P (hd xs) \<Longrightarrow> takeWhile P xs = []"
  by (cases xs) auto

lemma sign_not_isspace: "\<not> isspace (CHR ''-'')" "\<not> isspace (CHR ''+'')"
  by (simp_all add: isspace_def)

lemma stoi_decomposed:
  assumes sp: "\<forall>c\<in>set sp. isspace c"
    and sg: "sg = [] \<or> sg = ''-'' \<or> sg = ''+''"
    and ds: "\<forall>c\<in>set ds. isdigit c"
    and rest: "rest = [] \<or> \<not> isdigit (hd rest)"
    and canon: "sg = [] \<and> ds = [] \<longrightarrow>
                  rest = [] \<or> (\<not> isspace (hd rest) \<and> hd rest \<noteq> CHR ''-'' \<and> hd rest \<noteq> CHR ''+'')"
  shows "stoi (sp @ sg @ ds @ rest) =
           (if ds = [] then Inl InvalidArgument
            else if (if sg = ''-'' then - digits_value ds else digits_value ds) < - (2 ^ 31)
                    \<or> 2 ^ 31 - 1 < (if sg = ''-'' then - digits_value ds else digits_value ds)
                 then Inl OutOfRange
                 else Inr (if sg = ''-'' then - digits_value ds else digits_value ds))"
proof -
  have d0: "ds \<noteq> [] \<Longrightarrow> isdigit (hd ds)" using ds by (cases ds) auto
  have x: "sg @ ds @ rest = [] \<or> \<not> isspace (hd (sg @ ds @ rest))"
    using sg canon d0 by (cases "ds = []") (auto simp: sign_not_isspace dest: isdigit_not_isspace)
  have a: "dropWhile isspace (sp @ sg @ ds @ rest) = sg @ ds @ rest"
    using sp dropWhile_hd_id [where P = isspace, OF x] by simp
  have y: "sg = [] \<Longrightarrow> ds @ rest = [] \<or> (hd (ds @ rest) \<noteq> CHR ''-'' \<and> hd (ds @ rest) \<noteq> CHR ''+'')"
    using canon d0 by (cases "ds = []") (auto dest: isdigit_not_sign)
  have b: "strip_sign (sg @ ds @ rest) = (sg = ''-'', ds @ rest)"
  proof (cases "sg = []")
    case True
    with y show ?thesis by (cases "ds @ rest") (auto simp: strip_sign_def)
  next
    case False
    with sg show ?thesis by (auto simp: strip_sign_def)
  qed
  have c: "takeWhile isdigit (ds @ rest) = ds"
    using ds takeWhile_hd_Nil [where P = isdigit, OF rest]
    by (simp add: takeWhile_append takeWhile_eq_all_conv [THEN iffD2])
  show ?thesis
    unfolding stoi_def a b by (simp add: c Let_def)
qed

lemma stoi_decomposition_exists:
  "\<exists>sp sg ds rest. out = sp @ sg @ ds @ rest \<and>
      (\<forall>c\<in>set sp. isspace c) \<and> (sg = [] \<or> sg = ''-'' \<or> sg = ''+'') \<and>
      (\<forall>c\<in>set ds. isdigit c) \<and> (rest = [] \<or> \<not> isdigit (hd rest)) \<and>
      (sg = [] \<and> ds = [] \<longrightarrow>
         rest = [] \<or> (\<not> isspace (hd rest) \<and> hd rest \<noteq> CHR ''-'' \<and> hd rest \<noteq> CHR ''+''))"
proof -
  define sp where "sp = takeWhile isspace out"
  define x where "x = dropWhile isspace out"
  define sg where "sg = (if x \<noteq> [] \<and> (hd x = CHR ''-'' \<or> hd x = CHR ''+'') then [hd x] else [])"
  define y where "y = (if x \<noteq> [] \<and> (hd x = CHR ''-'' \<or> hd x = CHR ''+'') then tl x else x)"
  define ds where "ds = takeWhile isdigit y"
  define rest where "rest = dropWhile isdigit y"
  have e: "out = sp @ sg @ ds @ rest"
    by (simp add: sp_def x_def sg_def y_def ds_def rest_def)
  have s1: "\<forall>c\<in>set sp. isspace c"
    by (auto simp: sp_def dest: set_takeWhileD)
  have s2: "sg = [] \<or> sg = ''-'' \<or> sg = ''+''"
    by (auto simp: sg_def)
  have s3: "\<forall>c\<in>set ds. isdigit c"
    by (auto simp: ds_def dest: set_takeWhileD)
  have s4: "rest = [] \<or> \<not> isdigit (hd rest)"
    unfolding rest_def by (cases "dropWhile isdigit y = []") (simp_all add: hd_dropWhile)
  have xh: "x = [] \<or> \<not> isspace (hd x)"
    unfolding x_def by (cases "dropWhile isspace out = []") (simp_all add: hd_dropWhile)
  have s5: "sg = [] \<and> ds = [] \<longrightarrow>
         rest = [] \<or> (\<not> isspace (hd rest) \<and> hd rest \<noteq> CHR ''-'' \<and> hd rest \<noteq> CHR ''+'')"
  proof (intro impI, elim conjE)
    assume g: "sg = []" and d: "ds = []"
    from g have yx: "y = x" and ns: "x = [] \<or> (hd x \<noteq> CHR ''-'' \<and> hd x \<noteq> CHR ''+'')"
      by (auto simp: sg_def y_def split: if_splits)
    from d have "y = [] \<or> \<not> isdigit (hd y)"
      by (cases y) (auto simp: ds_def split: if_splits)
    then have "rest = y" unfolding rest_def by (rule dropWhile_hd_id [where P = isdigit])
    with yx xh ns show "rest = [] \<or> (\<not> isspace (hd rest) \<and> hd rest \<noteq> CHR ''-'' \<and> hd rest \<noteq> CHR ''+'')"
      by auto
  qed
  from e s1 s2 s3 s4 s5 show ?thesis by blast
qed

lemma stoi_examples:
  "stoi (line ''1000'') = Inr 1000"
  "stoi ''abc'' = Inl InvalidArgument"
  "stoi ''12abc'' = Inr 12"
  "stoi ''99999999999'' = Inl OutOfRange"
  by (simp_all add: stoi_def line_def newline_def strip_sign_def isspace_def isdigit_def
      digits_value_def)

subsection \<open>The construction as a whole\<close>

lemma resolve_default_identity_eq:
  "resolve_default_identity h w =
     (if exit_code (respond (session w) (issued (session w)) ''id -u'') \<noteq> 0
      then (Inl (RuntimeError (read_std_error (respond (session w) (issued (session w)) ''id -u''))),
            sent w [''id -u''])
      else case stoi (read_std_output (respond (session w) (issued (session w)) ''id -u'')) of
        Inl e \<Rightarrow>
          (Inl e, log debug category (debug_id_line h ''124'' ''u''
                    (read_std_output (respond (session w) (issued (session w)) ''id -u'')))
                    (sent w [''id -u'']))
      | Inr uid \<Rightarrow>
          if exit_code (respond (session w) (issued (session w) @ [''id -u'']) ''id -g'') \<noteq> 0
          then (Inl (RuntimeError (read_std_error
                       (respond (session w) (issued (session w) @ [''id -u'']) ''id -g''))),
                log debug category (debug_id_line h ''124'' ''u''
                    (read_std_output (respond (session w) (issued (session w)) ''id -u'')))
                    (sent w [''id -u'', ''id -g'']))
          else case stoi (read_std_output
                      (respond (session w) (issued (session w) @ [''id -u'']) ''id -g'')) of
            Inl e \<Rightarrow>
              (Inl e,
               log debug category (debug_id_line h ''128'' ''g''
                 (read_std_output (respond (session w) (issued (session w) @ [''id -u'']) ''id -g'')))
                 (log debug category (debug_id_line h ''124'' ''u''
                    (read_std_output (respond (session w) (issued (session w)) ''id -u'')))
                    (sent w [''id -u'', ''id -g''])))
          | Inr gid \<Rightarrow>
              (Inr (uid, gid),
               log debug category (debug_id_line h ''128'' ''g''
                 (read_std_output (respond (session w) (issued (session w) @ [''id -u'']) ''id -g'')))
                 (log debug category (debug_id_line h ''124'' ''u''
                    (read_std_output (respond (session w) (issued (session w)) ''id -u'')))
                    (sent w [''id -u'', ''id -g'']))))"
  by (simp add: resolve_default_identity_def run_cmd_default_eq Let_def sent_simps log_simps
      split: sum.splits)




lemma guest_ids_simps:
  "guest_ids out_u out_g hist ''id -u'' = exited 0 out_u []"
  "guest_ids out_u out_g hist ''id -g'' = exited 0 out_g []"
  by (simp_all add: guest_ids_def)

lemma fresh_ids: "ubuntu_but_ids (respond (session (fresh (guest_ids out_u out_g))))"
  by (simp add: fresh_simps ubuntu_but_ids_guests)

lemma make_sftp_server_mnt_data:
  assumes u: "ubuntu_but_ids r"
    and ou: "\<And>hist. r hist ''id -u'' = exited 0 out_u []"
    and og: "\<And>hist. r hist ''id -g'' = exited 0 out_g []"
    and su: "stoi out_u = Inr uid" and sg: "stoi out_g = Inr gid"
  shows "\<exists>srv w'. make_sftp_server host_empty (fresh r) source ''/mnt/data'' gid_map uid_map
                     = (Inr srv, w') \<and>
           default_uid srv = uid \<and> default_gid srv = gid \<and>
           new_cmds (fresh r) w' =
             [''which sshfs'',
              mkdir_cmd ''/mnt'', ''id -nu'', ''id -ng'', chown_cmd ''ubuntu'' ''ubuntu'' ''/mnt'',
              mkdir_cmd ''/mnt/data'', ''id -nu'', ''id -ng'',
              chown_cmd ''ubuntu'' ''ubuntu'' ''/mnt/data'',
              ''id -u'', ''id -g'']"
proof -
  let ?w0 = "log debug category (debug_entry_line host_empty source ''/mnt/data'') (fresh r)"
  let ?P = "[mkdir_cmd ''/mnt'', ''id -nu'', ''id -ng'', chown_cmd ''ubuntu'' ''ubuntu'' ''/mnt'',
             mkdir_cmd ''/mnt/data'', ''id -nu'', ''id -ng'',
             chown_cmd ''ubuntu'' ''ubuntu'' ''/mnt/data'']"
  have c: "check_sshfs_exists ?w0 = (Inr (), sent ?w0 [''which sshfs''])"
    by (simp add: check_sshfs_exists_eq log_simps fresh_simps ubuntu_but_ids_simps [OF u]
        exited_simps)
  have "ubuntu_but_ids (respond (session (sent ?w0 [''which sshfs''])))"
    by (simp add: sent_simps log_simps fresh_simps u)
  from provision_ubuntu_mnt_data [OF this]
  have p: "provision host_empty (sent ?w0 [''which sshfs'']) ''/mnt/data'' =
             (Inr True, sent ?w0 (''which sshfs'' # ?P))"
    by (simp add: sent_simps)
  have "\<exists>w'. resolve_default_identity host_empty (sent ?w0 (''which sshfs'' # ?P))
               = (Inr (uid, gid), w') \<and>
             issued (session w') = ''which sshfs'' # ?P @ [''id -u'', ''id -g'']"
    by (simp add: resolve_default_identity_eq sent_simps log_simps fresh_simps ou og su sg
        exited_simps)
  then obtain w' where
    r: "resolve_default_identity host_empty (sent ?w0 (''which sshfs'' # ?P)) = (Inr (uid, gid), w')"
    and i: "issued (session w') = ''which sshfs'' # ?P @ [''id -u'', ''id -g'']"
    by blast
  have "make_sftp_server host_empty (fresh r) source ''/mnt/data'' gid_map uid_map =
          (Inr \<lparr>srv_session = session w', srv_source = source, srv_target = ''/mnt/data'',
                srv_gid_map = gid_map, srv_uid_map = uid_map,
                default_uid = uid, default_gid = gid, stop_signals = 0\<rparr>, w')"
    by (simp add: make_sftp_server_def Let_def c p r)
  moreover have "new_cmds (fresh r) w' = ''which sshfs'' # ?P @ [''id -u'', ''id -g'']"
    by (simp add: new_cmds_def fresh_simps i)
  ultimately show ?thesis by simp
qed

subsection \<open>Parsing the default identity\<close>

text \<open>
  C6, as amended. The outputs of \<^verbatim>\<open>id -u\<close> and \<^verbatim>\<open>id -g\<close> are not trimmed; each is
  parsed by \<open>stoi\<close>, and whitespace appended to an output does not change the result.
  What \<open>stoi\<close> returns is fixed for every string: written as whitespace, an optional
  sign, the longest run of digits and the rest, as every string can be, it is an invalid
  argument when the run of digits is empty, out of range when the signed number does not
  fit an \<^verbatim>\<open>int\<close>, and that number otherwise, whatever the rest is. When the parse of the
  uid or of the gid fails, that exception leaves the constructor of the bridge, and the
  failed query is the last command the session has run: it is not sent again. When both
  parse, the server gets the two numbers.
\<close>

theorem default_identity_parsed_by_stoi:
  "((\<forall>c\<in>set ws. isspace c) \<longrightarrow> stoi (out @ ws) = stoi out) \<and>
   ((\<forall>c\<in>set sp. isspace c) \<and> (sg = [] \<or> sg = ''-'' \<or> sg = ''+'') \<and>
    (\<forall>c\<in>set ds. isdigit c) \<and> (rest = [] \<or> \<not> isdigit (hd rest)) \<and>
    (sg = [] \<and> ds = [] \<longrightarrow>
       rest = [] \<or> (\<not> isspace (hd rest) \<and> hd rest \<noteq> CHR ''-'' \<and> hd rest \<noteq> CHR ''+'')) \<longrightarrow>
      stoi (sp @ sg @ ds @ rest) =
        (if ds = [] then Inl InvalidArgument
         else if (if sg = ''-'' then - digits_value ds else digits_value ds) < - (2 ^ 31)
                 \<or> 2 ^ 31 - 1 < (if sg = ''-'' then - digits_value ds else digits_value ds)
              then Inl OutOfRange
              else Inr (if sg = ''-'' then - digits_value ds else digits_value ds))) \<and>
   (\<exists>sp' sg' ds' rest'. txt = sp' @ sg' @ ds' @ rest' \<and>
      (\<forall>c\<in>set sp'. isspace c) \<and> (sg' = [] \<or> sg' = ''-'' \<or> sg' = ''+'') \<and>
      (\<forall>c\<in>set ds'. isdigit c) \<and> (rest' = [] \<or> \<not> isdigit (hd rest')) \<and>
      (sg' = [] \<and> ds' = [] \<longrightarrow>
         rest' = [] \<or> (\<not> isspace (hd rest') \<and> hd rest' \<noteq> CHR ''-'' \<and> hd rest' \<noteq> CHR ''+''))) \<and>
   (check_sshfs_exists (log debug category (debug_entry_line h source target) w) = (Inr (), w1) \<and>
    provision h w1 target = (Inr b, w2) \<and>
    respond (session w2) (issued (session w2)) ''id -u'' = exited 0 out_u err_u \<and>
    stoi out_u = Inl e \<longrightarrow>
      SshfsMount h w source target gid_map uid_map =
        (Inl e, log debug category (debug_id_line h ''124'' ''u'' out_u) (sent w2 [''id -u'']))) \<and>
   (check_sshfs_exists (log debug category (debug_entry_line h source target) w) = (Inr (), w1) \<and>
    provision h w1 target = (Inr b, w2) \<and>
    respond (session w2) (issued (session w2)) ''id -u'' = exited 0 out_u err_u \<and>
    stoi out_u = Inr uid \<and>
    respond (session w2) (issued (session w2) @ [''id -u'']) ''id -g'' = exited 0 out_g err_g \<and>
    stoi out_g = Inl e \<longrightarrow>
      SshfsMount h w source target gid_map uid_map =
        (Inl e, log debug category (debug_id_line h ''128'' ''g'' out_g)
                  (log debug category (debug_id_line h ''124'' ''u'' out_u)
                     (sent w2 [''id -u'', ''id -g''])))) \<and>
   (check_sshfs_exists (log debug category (debug_entry_line h source target) w) = (Inr (), w1) \<and>
    provision h w1 target = (Inr b, w2) \<and>
    respond (session w2) (issued (session w2)) ''id -u'' = exited 0 out_u err_u \<and>
    stoi out_u = Inr uid \<and>
    respond (session w2) (issued (session w2) @ [''id -u'']) ''id -g'' = exited 0 out_g err_g \<and>
    stoi out_g = Inr gid \<longrightarrow>
      resolved_identity (make_sftp_server h w source target gid_map uid_map) = Some (uid, gid))"
proof (intro conjI impI; (elim conjE)?)
  assume "\<forall>c\<in>set ws. isspace c"
  then show "stoi (out @ ws) = stoi out" by (rule stoi_append_spaces)
next
  assume "\<forall>c\<in>set sp. isspace c" "sg = [] \<or> sg = ''-'' \<or> sg = ''+''"
    "\<forall>c\<in>set ds. isdigit c" "rest = [] \<or> \<not> isdigit (hd rest)"
    "sg = [] \<and> ds = [] \<longrightarrow>
       rest = [] \<or> (\<not> isspace (hd rest) \<and> hd rest \<noteq> CHR ''-'' \<and> hd rest \<noteq> CHR ''+'')"
  then show "stoi (sp @ sg @ ds @ rest) =
        (if ds = [] then Inl InvalidArgument
         else if (if sg = ''-'' then - digits_value ds else digits_value ds) < - (2 ^ 31)
                 \<or> 2 ^ 31 - 1 < (if sg = ''-'' then - digits_value ds else digits_value ds)
              then Inl OutOfRange
              else Inr (if sg = ''-'' then - digits_value ds else digits_value ds))"
    by (rule stoi_decomposed)
next
  show "\<exists>sp' sg' ds' rest'. txt = sp' @ sg' @ ds' @ rest' \<and>
      (\<forall>c\<in>set sp'. isspace c) \<and> (sg' = [] \<or> sg' = ''-'' \<or> sg' = ''+'') \<and>
      (\<forall>c\<in>set ds'. isdigit c) \<and> (rest' = [] \<or> \<not> isdigit (hd rest')) \<and>
      (sg' = [] \<and> ds' = [] \<longrightarrow>
         rest' = [] \<or> (\<not> isspace (hd rest') \<and> hd rest' \<noteq> CHR ''-'' \<and> hd rest' \<noteq> CHR ''+''))"
    by (rule stoi_decomposition_exists)
next
  assume "check_sshfs_exists (log debug category (debug_entry_line h source target) w) = (Inr (), w1)"
    "provision h w1 target = (Inr b, w2)"
    "respond (session w2) (issued (session w2)) ''id -u'' = exited 0 out_u err_u"
    "stoi out_u = Inl e"
  then show "SshfsMount h w source target gid_map uid_map =
        (Inl e, log debug category (debug_id_line h ''124'' ''u'' out_u) (sent w2 [''id -u'']))"
    by (simp add: SshfsMount_def make_sftp_server_def Let_def resolve_default_identity_eq
        exited_simps)
next
  assume "check_sshfs_exists (log debug category (debug_entry_line h source target) w) = (Inr (), w1)"
    "provision h w1 target = (Inr b, w2)"
    "respond (session w2) (issued (session w2)) ''id -u'' = exited 0 out_u err_u"
    "stoi out_u = Inr uid"
    "respond (session w2) (issued (session w2) @ [''id -u'']) ''id -g'' = exited 0 out_g err_g"
    "stoi out_g = Inl e"
  then show "SshfsMount h w source target gid_map uid_map =
        (Inl e, log debug category (debug_id_line h ''128'' ''g'' out_g)
                  (log debug category (debug_id_line h ''124'' ''u'' out_u)
                     (sent w2 [''id -u'', ''id -g''])))"
    by (simp add: SshfsMount_def make_sftp_server_def Let_def resolve_default_identity_eq
        exited_simps)
next
  assume "check_sshfs_exists (log debug category (debug_entry_line h source target) w) = (Inr (), w1)"
    "provision h w1 target = (Inr b, w2)"
    "respond (session w2) (issued (session w2)) ''id -u'' = exited 0 out_u err_u"
    "stoi out_u = Inr uid"
    "respond (session w2) (issued (session w2) @ [''id -u'']) ''id -g'' = exited 0 out_g err_g"
    "stoi out_g = Inr gid"
  then show "resolved_identity (make_sftp_server h w source target gid_map uid_map) = Some (uid, gid)"
    by (simp add: resolved_identity_def make_sftp_server_def Let_def resolve_default_identity_eq
        exited_simps)
qed

lemma provision_host_full: "provision host_full w target = (Inr False, w)"
  unfolding provision_def
  by (rule provision_all_found) (simp add: host_full_def host_with_def)

lemma check_sshfs_exists_ids:
  "check_sshfs_exists (log lvl cat msg (fresh (guest_ids out_u out_g))) =
     (Inr (), sent (log lvl cat msg (fresh (guest_ids out_u out_g))) [''which sshfs''])"
  by (simp add: check_sshfs_exists_eq log_simps fresh_simps guest_ids_def guest_ubuntu_simps
      exited_simps)

text \<open>
  The theorem at the outputs \<^verbatim>\<open>1000\n\<close>, \<^verbatim>\<open>12abc\<close>, \<^verbatim>\<open>-7\<close>,
  \<^verbatim>\<open>99999999999\n\<close>, \<^verbatim>\<open>abc\<close>, a blank followed by a sign, and the empty
  output, and at guests that print \<^verbatim>\<open>abc\<close> for the uid or for the gid.
\<close>

theorem default_identity_parsed_by_stoi_witness:
  "stoi (''1000'' @ [newline]) = Inr 1000 \<and>
   stoi ''12abc'' = Inr 12 \<and>
   stoi ''-7'' = Inr (- 7) \<and>
   stoi (''99999999999'' @ [newline]) = Inl OutOfRange \<and>
   stoi ''abc'' = Inl InvalidArgument \<and>
   stoi '' +'' = Inl InvalidArgument \<and>
   stoi [] = Inl InvalidArgument \<and>
   fst (SshfsMount host_full (fresh (guest_ids ''abc'' (line ''1000''))) ''/home/me'' ''/mnt/data''
          Map.empty Map.empty) = Inl InvalidArgument \<and>
   new_cmds (fresh (guest_ids ''abc'' (line ''1000'')))
     (snd (SshfsMount host_full (fresh (guest_ids ''abc'' (line ''1000''))) ''/home/me''
             ''/mnt/data'' Map.empty Map.empty)) = [''which sshfs'', ''id -u''] \<and>
   fst (SshfsMount host_full (fresh (guest_ids (line ''1000'') ''abc'')) ''/home/me'' ''/mnt/data''
          Map.empty Map.empty) = Inl InvalidArgument \<and>
   new_cmds (fresh (guest_ids (line ''1000'') ''abc''))
     (snd (SshfsMount host_full (fresh (guest_ids (line ''1000'') ''abc'')) ''/home/me''
             ''/mnt/data'' Map.empty Map.empty)) = [''which sshfs'', ''id -u'', ''id -g''] \<and>
   resolved_identity (make_sftp_server host_full (fresh (guest_ids (line ''1000'') (line ''1000'')))
      ''/home/me'' ''/mnt/data'' Map.empty Map.empty) = Some (1000, 1000)"
proof -
  let ?L = "log debug category (debug_entry_line host_full ''/home/me'' ''/mnt/data'')"
  note T = default_identity_parsed_by_stoi
  have sp: "\<forall>c\<in>set [newline]. isspace c" by (simp add: isspace_def newline_def)
  have a0: "stoi ([] @ [] @ ''1000'' @ []) = Inr 1000"
    using T [where sp = "[]" and sg = "[]" and ds = "''1000''" and rest = "[]",
        THEN conjunct2, THEN conjunct1]
    by (simp add: isdigit_def digits_value_def)
  have a: "stoi (''1000'' @ [newline]) = Inr 1000"
    using T [where ws = "[newline]" and out = "''1000''", THEN conjunct1] sp a0 by simp
  have b: "stoi ([] @ [] @ ''12'' @ ''abc'') = Inr 12"
    using T [where sp = "[]" and sg = "[]" and ds = "''12''" and rest = "''abc''",
        THEN conjunct2, THEN conjunct1]
    by (simp add: isdigit_def digits_value_def)
  have b2: "stoi ([] @ ''-'' @ ''7'' @ []) = Inr (- 7)"
    using T [where sp = "[]" and sg = "''-''" and ds = "''7''" and rest = "[]",
        THEN conjunct2, THEN conjunct1]
    by (simp add: isdigit_def digits_value_def)
  have b': "stoi ([] @ [] @ ''99999999999'' @ [newline]) = Inl OutOfRange"
    using T [where sp = "[]" and sg = "[]" and ds = "''99999999999''" and rest = "[newline]",
        THEN conjunct2, THEN conjunct1]
    by (simp add: isdigit_def digits_value_def newline_def)
  have c: "stoi ''abc'' = Inl InvalidArgument"
    using T [where sp = "[]" and sg = "[]" and ds = "[]" and rest = "''abc''",
        THEN conjunct2, THEN conjunct1]
    by (simp add: isdigit_def isspace_def)
  have c2: "stoi ('' '' @ ''+'' @ [] @ []) = Inl InvalidArgument"
    using T [where sp = "'' ''" and sg = "''+''" and ds = "[]" and rest = "[]",
        THEN conjunct2, THEN conjunct1]
    by (simp add: isspace_def)
  have c3: "stoi [] = Inl InvalidArgument"
    using T [where sp = "[]" and sg = "[]" and ds = "[]" and rest = "[]",
        THEN conjunct2, THEN conjunct1]
    by simp
  have d: "SshfsMount host_full (fresh (guest_ids ''abc'' (line ''1000''))) ''/home/me'' ''/mnt/data''
          Map.empty Map.empty =
        (Inl InvalidArgument,
         log debug category (debug_id_line host_full ''124'' ''u'' ''abc'')
           (sent (sent (?L (fresh (guest_ids ''abc'' (line ''1000'')))) [''which sshfs'']) [''id -u'']))"
    using T [where h = host_full and source = "''/home/me''" and target = "''/mnt/data''"
        and w = "fresh (guest_ids ''abc'' (line ''1000''))"
        and ?w1.0 = "sent (?L (fresh (guest_ids ''abc'' (line ''1000'')))) [''which sshfs'']"
        and ?w2.0 = "sent (?L (fresh (guest_ids ''abc'' (line ''1000'')))) [''which sshfs'']"
        and b = False and out_u = "''abc''" and err_u = "[]" and e = InvalidArgument
        and gid_map = Map.empty and uid_map = Map.empty]
      check_sshfs_exists_ids provision_host_full c
    by (simp add: sent_simps log_simps fresh_simps guest_ids_simps)
  have e: "SshfsMount host_full (fresh (guest_ids (line ''1000'') ''abc'')) ''/home/me'' ''/mnt/data''
          Map.empty Map.empty =
        (Inl InvalidArgument,
         log debug category (debug_id_line host_full ''128'' ''g'' ''abc'')
           (log debug category (debug_id_line host_full ''124'' ''u'' (line ''1000''))
             (sent (sent (?L (fresh (guest_ids (line ''1000'') ''abc''))) [''which sshfs''])
                [''id -u'', ''id -g''])))"
    using T [where h = host_full and source = "''/home/me''" and target = "''/mnt/data''"
        and w = "fresh (guest_ids (line ''1000'') ''abc'')"
        and ?w1.0 = "sent (?L (fresh (guest_ids (line ''1000'') ''abc''))) [''which sshfs'']"
        and ?w2.0 = "sent (?L (fresh (guest_ids (line ''1000'') ''abc''))) [''which sshfs'']"
        and b = False and out_u = "line ''1000''" and err_u = "[]" and uid = 1000
        and out_g = "''abc''" and err_g = "[]" and e = InvalidArgument
        and gid_map = Map.empty and uid_map = Map.empty]
      check_sshfs_exists_ids provision_host_full c stoi_examples(1)
    by (simp add: sent_simps log_simps fresh_simps guest_ids_simps)
  have f: "resolved_identity (make_sftp_server host_full
      (fresh (guest_ids (line ''1000'') (line ''1000'')))
      ''/home/me'' ''/mnt/data'' Map.empty Map.empty) = Some (1000, 1000)"
    using T [where h = host_full and source = "''/home/me''" and target = "''/mnt/data''"
        and w = "fresh (guest_ids (line ''1000'') (line ''1000''))"
        and ?w1.0 = "sent (?L (fresh (guest_ids (line ''1000'') (line ''1000'')))) [''which sshfs'']"
        and ?w2.0 = "sent (?L (fresh (guest_ids (line ''1000'') (line ''1000'')))) [''which sshfs'']"
        and b = False and out_u = "line ''1000''" and err_u = "[]" and uid = 1000
        and out_g = "line ''1000''" and err_g = "[]" and gid = 1000
        and gid_map = Map.empty and uid_map = Map.empty]
      check_sshfs_exists_ids provision_host_full stoi_examples(1)
    by (simp add: sent_simps log_simps fresh_simps guest_ids_simps)
  from a b b2 b' c c2 c3 f show ?thesis
    unfolding d e by (simp add: new_cmds_def sent_simps log_simps fresh_simps)
qed

text \<open>
  C6 as stated fails at the output \<^verbatim>\<open>12abc\<close>, which is not a number: it is not
  refused, the bridge is built with the default uid 12.
\<close>

theorem stoi_accepts_trailing_text_counterexample:
  "stoi ''12abc'' = Inr 12 \<and>
   resolved_identity
     (make_sftp_server host_full (fresh (guest_ids ''12abc'' (line ''1000'')))
        ''/home/me'' ''/mnt/data'' Map.empty Map.empty) = Some (12, 1000)"
  by (simp add: resolved_identity_def make_sftp_server_def Let_def check_sshfs_exists_ids
      provision_host_full resolve_default_identity_eq sent_simps log_simps fresh_simps
      guest_ids_simps exited_simps stoi_examples)

subsection \<open>The default identity and the owner of the directories\<close>




lemma make_sftp_server_ubuntu:
  "\<exists>srv w'. make_sftp_server host_empty (fresh guest_ubuntu) source ''/mnt/data'' gid_map uid_map
                     = (Inr srv, w') \<and>
           default_uid srv = 1000 \<and> default_gid srv = 1000 \<and>
           new_cmds (fresh guest_ubuntu) w' =
             [''which sshfs'',
              mkdir_cmd ''/mnt'', ''id -nu'', ''id -ng'', chown_cmd ''ubuntu'' ''ubuntu'' ''/mnt'',
              mkdir_cmd ''/mnt/data'', ''id -nu'', ''id -ng'',
              chown_cmd ''ubuntu'' ''ubuntu'' ''/mnt/data'',
              ''id -u'', ''id -g'']"
  by (rule make_sftp_server_mnt_data
        [OF ubuntu_but_ids_guests(1), where out_u = "line ''1000''" and out_g = "line ''1000''"])
     (simp_all add: guest_ubuntu_simps stoi_examples)




subsection \<open>Destroying the bridge\<close>

text \<open>
  C1. The destructor calls \<open>stop\<close> whatever the state of the bridge: it signals the
  server, then joins the thread when the thread is joinable, and returns with a thread
  that is not joinable. For a bridge the constructor has built, after any number of
  explicit calls of \<open>stop\<close>, the calls made when the destructor returns are the signal
  to the server, the one join, and one more signal for each later \<open>stop\<close>: the worker
  has been joined, once, and after the server was signalled.
\<close>

theorem destructor_joins_worker:
  "(\<exists>x'. destructor x = Inr x' \<and> \<not> joinable x' \<and>
          calls x' = calls x @ server_stop # (if joinable x then [thread_join] else [])) \<and>
   (SshfsMount h w source target gid_map uid_map = (Inr m, w') \<longrightarrow>
      (\<exists>m1 m2. stop_times n m = Inr m1 \<and> destructor m1 = Inr m2 \<and> \<not> joinable m2 \<and>
         calls m2 = [server_stop, thread_join] @ replicate n server_stop))"
proof (intro conjI impI)
  show "\<exists>x'. destructor x = Inr x' \<and> \<not> joinable x' \<and>
          calls x' = calls x @ server_stop # (if joinable x then [thread_join] else [])"
    by (simp add: destructor_def stop_eq)
next
  assume "SshfsMount h w source target gid_map uid_map = (Inr m, w')"
  then have "joinable m" "calls m = []"
    by (auto simp: SshfsMount_def split: prod.splits sum.splits)
  with stop_times_then_stop [of m n]
  show "\<exists>m1 m2. stop_times n m = Inr m1 \<and> destructor m1 = Inr m2 \<and> \<not> joinable m2 \<and>
         calls m2 = [server_stop, thread_join] @ replicate n server_stop"
    by (simp add: destructor_def)
qed

text \<open>The theorem at a bridge built on the Ubuntu guest and stopped once before it is destroyed.\<close>

theorem destructor_joins_worker_witness:
  "\<exists>m w' m1 m2.
     SshfsMount host_empty (fresh guest_ubuntu) ''/home/me'' ''/mnt/data'' Map.empty Map.empty
       = (Inr m, w') \<and>
     stop_times (Suc 0) m = Inr m1 \<and> destructor m1 = Inr m2 \<and> \<not> joinable m2 \<and>
     calls m2 = [server_stop, thread_join, server_stop]"
proof -
  from make_sftp_server_ubuntu [of "''/home/me''" Map.empty Map.empty]
  obtain srv w' where "make_sftp_server host_empty (fresh guest_ubuntu) ''/home/me'' ''/mnt/data''
       Map.empty Map.empty = (Inr srv, w')"
    by blast
  then have run: "SshfsMount host_empty (fresh guest_ubuntu) ''/home/me'' ''/mnt/data''
       Map.empty Map.empty = (Inr \<lparr>mount_server = srv, joinable = True, calls = []\<rparr>, w')"
    by (simp add: SshfsMount_def)
  from destructor_joins_worker
    [where h = host_empty and w = "fresh guest_ubuntu" and source = "''/home/me''"
       and target = "''/mnt/data''" and gid_map = Map.empty and uid_map = Map.empty
       and m = "\<lparr>mount_server = srv, joinable = True, calls = []\<rparr>" and w' = w' and n = "Suc 0"]
    run
  have "\<exists>m1 m2. stop_times (Suc 0) \<lparr>mount_server = srv, joinable = True, calls = []\<rparr> = Inr m1 \<and>
    destructor m1 = Inr m2 \<and> \<not> joinable m2 \<and> calls m2 = [server_stop, thread_join] @ replicate (Suc 0) server_stop"
    by blast
  then obtain m1 m2 where "stop_times (Suc 0) \<lparr>mount_server = srv, joinable = True, calls = []\<rparr> = Inr m1"
    "destructor m1 = Inr m2" "\<not> joinable m2" "calls m2 = [server_stop, thread_join, server_stop]"
    by auto
  with run show ?thesis by blast
qed

end
